theory Spec2Isabelle
  imports Complex_Main "HOL-Library.Word" "HOL-Library.Sublist"
begin

section \<open>Data model\<close>

text \<open>
  JavaScript strings are modelled as \<open>string\<close> (a list of 8-bit code units), numbers that
  the program only ever uses as whole credit amounts, indices and millisecond timestamps as
  \<open>int\<close>, and screen coordinates as \<open>real\<close>. A \<open>File\<close> is the triple its constructor
  receives: name, \<open>type\<close> option as passed, and the bytes of the one \<open>Uint8Array\<close> part.
\<close>

record File =
  file_name :: string
  file_type :: string
  file_bytes :: "8 word list"

datatype Tab = promptEdit | localEdit | filters | cropTab

datatype AppMode = start | editor | generator | account | pricing | gallery

record CreditTransaction =
  reason :: string
  amount :: int
  date :: int

record User =
  uid :: string
  user_name :: string
  email :: string
  credits :: int
  creditHistory :: "CreditTransaction list"

record GeneratedImage =
  img_id :: string
  img_url :: string
  img_prompt :: string
  isUpscaled :: bool
  createdAt :: int

record point =
  px :: real
  py :: real

record crop_rect =
  crop_x :: real
  crop_y :: real
  crop_width :: real
  crop_height :: real

text \<open>
  The \<open>useState\<close> cells of the \<open>App\<close> component that the modelled handlers read or write.
\<close>

record app =
  currentUser :: "User option"
  appMode :: AppMode
  history :: "File list"
  historyIndex :: int
  prompt :: string
  isLoading :: bool
  error :: "string option"
  editHotspot :: "point option"
  displayHotspot :: "point option"
  activeTab :: Tab
  crop :: "crop_rect option"
  completedCrop :: "crop_rect option"
  allGeneratedImages :: "GeneratedImage list"

definition initial_app :: app where
  "initial_app = \<lparr> currentUser = None, appMode = start, history = [], historyIndex = -1,
     prompt = [], isLoading = False, error = None, editHotspot = None,
     displayHotspot = None, activeTab = promptEdit, crop = None, completedCrop = None,
     allGeneratedImages = [] \<rparr>"

section \<open>Edit history\<close>

text \<open>\<open>xs[i] ?? null\<close>: an index outside the array reads \<open>undefined\<close>.\<close>

definition js_index :: "'a list \<Rightarrow> int \<Rightarrow> 'a option" where
  "js_index xs i = (if 0 \<le> i \<and> i < int (length xs) then Some (xs ! nat i) else None)"

text \<open>\<open>xs.slice(0, e)\<close>: a negative end counts from the back, and the end is clamped.\<close>

definition slice0 :: "'a list \<Rightarrow> int \<Rightarrow> 'a list" where
  "slice0 xs e =
     (let n = int (length xs);
          k = (if e < 0 then max (n + e) 0 else min e n)
      in take (nat k) xs)"

definition currentImage :: "app \<Rightarrow> File option" where
  "currentImage s = js_index (history s) (historyIndex s)"

definition originalImage :: "app \<Rightarrow> File option" where
  "originalImage s = js_index (history s) 0"

definition canUndo :: "app \<Rightarrow> bool" where
  "canUndo s = (historyIndex s > 0)"

definition canRedo :: "app \<Rightarrow> bool" where
  "canRedo s = (historyIndex s < int (length (history s)) - 1)"

definition addImageToHistory :: "File \<Rightarrow> app \<Rightarrow> app" where
  "addImageToHistory newImageFile s =
     (let newHistory = slice0 (history s) (historyIndex s + 1) @ [newImageFile]
      in s\<lparr> history := newHistory,
             historyIndex := int (length newHistory) - 1,
             crop := None,
             completedCrop := None \<rparr>)"

definition handleImageUpload :: "File \<Rightarrow> app \<Rightarrow> app" where
  "handleImageUpload f s =
     s\<lparr> error := None,
        history := [f],
        historyIndex := 0,
        editHotspot := None,
        displayHotspot := None,
        activeTab := promptEdit,
        crop := None,
        completedCrop := None,
        appMode := editor \<rparr>"

definition handleUndo :: "app \<Rightarrow> app" where
  "handleUndo s =
     (if canUndo s
      then s\<lparr> historyIndex := historyIndex s - 1, editHotspot := None, displayHotspot := None \<rparr>
      else s)"

definition handleRedo :: "app \<Rightarrow> app" where
  "handleRedo s =
     (if canRedo s
      then s\<lparr> historyIndex := historyIndex s + 1, editHotspot := None, displayHotspot := None \<rparr>
      else s)"

definition handleReset :: "app \<Rightarrow> app" where
  "handleReset s =
     (if length (history s) > 0
      then s\<lparr> historyIndex := 0, error := None, editHotspot := None, displayHotspot := None \<rparr>
      else s)"

text \<open>The five history operations of an editing session, and a run of them.\<close>

datatype history_op = Upload File | Append File | Undo | Redo | Reset

fun history_step :: "app \<Rightarrow> history_op \<Rightarrow> app" where
  "history_step s (Upload f) = handleImageUpload f s"
| "history_step s (Append f) = addImageToHistory f s"
| "history_step s Undo = handleUndo s"
| "history_step s Redo = handleRedo s"
| "history_step s Reset = handleReset s"

definition run_history :: "history_op list \<Rightarrow> app" where
  "run_history ops = foldl history_step initial_app ops"

definition cursor_ok :: "app \<Rightarrow> bool" where
  "cursor_ok s =
     (if history s = [] then historyIndex s = -1
      else 0 \<le> historyIndex s \<and> historyIndex s \<le> int (length (history s)) - 1)"

section \<open>Strings and thrown values\<close>

text \<open>
  What a \<open>catch\<close> clause can receive: an \<open>Error\<close> with its message, the
  \<open>InvalidCharacterError\<close> that the host's \<open>atob\<close> raises, or a value that is not an
  \<open>Error\<close> at all.
\<close>

datatype exn = Error string | InvalidCharacterError | NonError

definition atob_error_text :: string where
  "atob_error_text = ''The string to be decoded is not correctly encoded.''"

text \<open>\<open>err instanceof Error ? err.message : 'An unknown error occurred.'\<close>\<close>

fun err_message :: "exn \<Rightarrow> string" where
  "err_message (Error m) = m"
| "err_message InvalidCharacterError = atob_error_text"
| "err_message NonError = ''An unknown error occurred.''"

text \<open>\<open>s.split(c)\<close> for a one-character separator: never an empty array.\<close>

fun js_split :: "char \<Rightarrow> string \<Rightarrow> string list" where
  "js_split c [] = [[]]"
| "js_split c (x # xs) =
     (if x = c then [] # js_split c xs
      else (case js_split c xs of [] \<Rightarrow> [[x]] | y # ys \<Rightarrow> (x # y) # ys))"

text \<open>The line terminators that \<open>.\<close> does not match, among 8-bit code units.\<close>

definition line_terminator :: "char \<Rightarrow> bool" where
  "line_terminator c = (c = CHR 0x0A \<or> c = CHR 0x0D)"

text \<open>
  The regular expression \<open>/:(.*?);/\<close>. \<open>lazy_group\<close> matches \<open>(.*?);\<close> at the head of
  its argument and yields group 1; \<open>match_mime\<close> tries every start position from the left
  and yields group 1 of the first match.
\<close>

fun lazy_group :: "string \<Rightarrow> string option" where
  "lazy_group [] = None"
| "lazy_group (c # cs) =
     (if c = CHR '';'' then Some []
      else if line_terminator c then None
      else map_option ((#) c) (lazy_group cs))"

fun match_mime :: "string \<Rightarrow> string option" where
  "match_mime [] = None"
| "match_mime (c # cs) =
     (if c = CHR '':'' then (case lazy_group cs of Some g \<Rightarrow> Some g | None \<Rightarrow> match_mime cs)
      else match_mime cs)"

text \<open>
  The host's \<open>atob\<close> (forgiving-base64 decode): ASCII whitespace is dropped, one or two
  trailing \<open>=\<close> are dropped when the length is a multiple of four, a length of 1 modulo 4
  or a character outside the alphabet is an \<open>InvalidCharacterError\<close> (here \<open>None\<close>), and
  the 6-bit values are packed into bytes, the spare low bits of a short last group being
  discarded.
\<close>

definition ascii_whitespace :: "char \<Rightarrow> bool" where
  "ascii_whitespace c =
     (c = CHR 0x09 \<or> c = CHR 0x0A \<or> c = CHR 0x0C \<or> c = CHR 0x0D \<or> c = CHR 0x20)"

definition b64_value :: "char \<Rightarrow> nat option" where
  "b64_value c =
     (let n = (of_char c :: nat) in
      if 65 \<le> n \<and> n \<le> 90 then Some (n - 65)
      else if 97 \<le> n \<and> n \<le> 122 then Some (n - 71)
      else if 48 \<le> n \<and> n \<le> 57 then Some (n + 4)
      else if n = 43 then Some 62
      else if n = 47 then Some 63
      else None)"

definition strip_padding :: "string \<Rightarrow> string" where
  "strip_padding s =
     (if length s mod 4 = 0 then
        (case rev s of
           a # b # r \<Rightarrow>
             if a = CHR ''='' \<and> b = CHR ''='' then rev r
             else if a = CHR ''='' then rev (b # r)
             else s
         | _ \<Rightarrow> s)
      else s)"

fun b64_bytes :: "nat list \<Rightarrow> nat list" where
  "b64_bytes (a # b # c # d # rest) =
     (let n = a * 262144 + b * 4096 + c * 64 + d
      in (n div 65536) mod 256 # (n div 256) mod 256 # n mod 256 # b64_bytes rest)"
| "b64_bytes [a, b, c] =
     (let n = (a * 4096 + b * 64 + c) div 4 in [(n div 256) mod 256, n mod 256])"
| "b64_bytes [a, b] = [((a * 64 + b) div 16) mod 256]"
| "b64_bytes _ = []"

text \<open>The result of \<open>atob\<close> is a binary string: a list of code units below 256.\<close>

definition atob :: "string \<Rightarrow> nat list option" where
  "atob s =
     (let t = strip_padding (filter (\<lambda>c. \<not> ascii_whitespace c) s) in
      if length t mod 4 = 1 then None
      else if \<exists>c \<in> set t. b64_value c = None then None
      else Some (b64_bytes (map (\<lambda>c. the (b64_value c)) t)))"

text \<open>
  \<open>while (n--) u8arr[n] = bstr.charCodeAt(n)\<close>, started at \<open>n = bstr.length\<close>: the index
  written is always inside both the string and the array.
\<close>

fun fill_u8 :: "nat list \<Rightarrow> nat \<Rightarrow> 8 word list \<Rightarrow> 8 word list" where
  "fill_u8 bstr 0 u8arr = u8arr"
| "fill_u8 bstr (Suc n) u8arr = fill_u8 bstr n (u8arr[n := of_nat (bstr ! n)])"

definition dataURLtoFile :: "string \<Rightarrow> string \<Rightarrow> exn + File" where
  "dataURLtoFile dataurl filename =
     (let arr = js_split CHR '','' dataurl in
      if length arr < 2 then Inl (Error ''Invalid data URL'')
      else (case match_mime (arr ! 0) of
              None \<Rightarrow> Inl (Error ''Could not parse MIME type from data URL'')
            | Some mime \<Rightarrow>
                if mime = [] then Inl (Error ''Could not parse MIME type from data URL'')
                else (case atob (arr ! 1) of
                        None \<Rightarrow> Inl InvalidCharacterError
                      | Some bstr \<Rightarrow>
                          (let n = length bstr;
                               u8arr = fill_u8 bstr n (replicate n 0)
                           in Inr \<lparr> file_name = filename, file_type = mime,
                                    file_bytes = u8arr \<rparr>))))"

text \<open>
  The parts of a data URL that the conversion reads: the header before the first comma
  and the body between the first comma and the next one (or the end).
\<close>

definition header_of :: "string \<Rightarrow> string" where
  "header_of d = takeWhile (\<lambda>c. c \<noteq> CHR '','') d"

definition body_of :: "string \<Rightarrow> string" where
  "body_of d = takeWhile (\<lambda>c. c \<noteq> CHR '','') (tl (dropWhile (\<lambda>c. c \<noteq> CHR '','') d))"

text \<open>
  The encoder the host applies when it writes a data URL (\<open>FileReader.readAsDataURL\<close>,
  \<open>canvas.toDataURL\<close>): standard base64 with padding. It serves to check \<open>atob\<close> above
  against its inverse.
\<close>

definition b64_char :: "nat \<Rightarrow> char" where
  "b64_char n =
     char_of (if n < 26 then 65 + n
              else if n < 52 then 71 + n
              else if n < 62 then n - 4
              else if n = 62 then 43
              else (47 :: nat))"

fun b64_digits :: "nat list \<Rightarrow> nat list" where
  "b64_digits (a # b # c # rest) =
     (a div 4) # ((a mod 4) * 16 + b div 16) # ((b mod 16) * 4 + c div 64) # (c mod 64)
       # b64_digits rest"
| "b64_digits [a, b] = [a div 4, (a mod 4) * 16 + b div 16, (b mod 16) * 4]"
| "b64_digits [a] = [a div 4, (a mod 4) * 16]"
| "b64_digits [] = []"

definition btoa :: "nat list \<Rightarrow> string" where
  "btoa bs =
     map b64_char (b64_digits bs) @ replicate ((3 - length bs mod 3) mod 3) CHR ''=''"

section \<open>Image AI gateway: reading a response\<close>

text \<open>
  The fields of a \<open>GenerateContentResponse\<close> that \<open>handleApiResponse\<close> reads. A field
  that may be absent is an option; \<open>response_text\<close> is the value of the response's \<open>text\<close>
  accessor.
\<close>

record inline_data =
  mimeType :: "string option"
  data :: "string option"

record part =
  inlineData :: "inline_data option"

record candidate =
  content_parts :: "part list option"
  finishReason :: "string option"

record prompt_feedback =
  blockReason :: "string option"
  blockReasonMessage :: "string option"

record response =
  promptFeedback :: "prompt_feedback option"
  candidates :: "candidate list option"
  response_text :: "string option"

text \<open>Truthiness of an optional string, and an optional string inside a template.\<close>

fun truthy :: "string option \<Rightarrow> bool" where
  "truthy None = False"
| "truthy (Some s) = (s \<noteq> [])"

fun template :: "string option \<Rightarrow> string" where
  "template None = ''undefined''"
| "template (Some s) = s"

text \<open>\<open>s.trim()\<close> over 8-bit code units.\<close>

definition js_whitespace :: "char \<Rightarrow> bool" where
  "js_whitespace c =
     (c = CHR 0x09 \<or> c = CHR 0x0A \<or> c = CHR 0x0B \<or> c = CHR 0x0C \<or> c = CHR 0x0D
      \<or> c = CHR 0x20 \<or> c = CHR 0xA0)"

definition trim :: "string \<Rightarrow> string" where
  "trim s = rev (dropWhile js_whitespace (rev (dropWhile js_whitespace s)))"

text \<open>\<open>response.promptFeedback?.blockReason\<close>\<close>

definition response_blockReason :: "response \<Rightarrow> string option" where
  "response_blockReason r =
     (case promptFeedback r of None \<Rightarrow> None | Some pf \<Rightarrow> blockReason pf)"

text \<open>\<open>response.candidates?.[0]\<close>\<close>

definition first_candidate :: "response \<Rightarrow> candidate option" where
  "first_candidate r =
     (case candidates r of None \<Rightarrow> None | Some cs \<Rightarrow> js_index cs 0)"

text \<open>\<open>response.candidates?.[0]?.content?.parts?.find(part => part.inlineData)\<close>\<close>

definition imagePartFromResponse :: "response \<Rightarrow> part option" where
  "imagePartFromResponse r =
     (case first_candidate r of
        None \<Rightarrow> None
      | Some c \<Rightarrow>
          (case content_parts c of
             None \<Rightarrow> None
           | Some ps \<Rightarrow> List.find (\<lambda>p. inlineData p \<noteq> None) ps))"

definition blocked_message :: "prompt_feedback \<Rightarrow> string" where
  "blocked_message pf =
     ''Request was blocked. Reason: '' @ template (blockReason pf) @ ''. ''
       @ (if truthy (blockReasonMessage pf) then template (blockReasonMessage pf) else [])"

definition stopped_message :: "string \<Rightarrow> string \<Rightarrow> string" where
  "stopped_message ctx fr =
     ''Image generation for '' @ ctx @ '' stopped unexpectedly. Reason: '' @ fr
       @ ''. This often relates to safety settings.''"

definition no_image_message :: "string \<Rightarrow> string option \<Rightarrow> string" where
  "no_image_message ctx textFeedback =
     ''The AI model did not return an image for the '' @ ctx @ ''. ''
       @ (if truthy textFeedback
          then ''The model responded with text: '' @ [CHR 0x22] @ template textFeedback
                 @ [CHR 0x22]
          else ''This can happen due to safety filters or if the request is too complex. ''
                 @ ''Please try rephrasing your prompt to be more direct.'')"

definition handleApiResponse :: "response \<Rightarrow> string \<Rightarrow> exn + string" where
  "handleApiResponse r ctx =
     (if truthy (response_blockReason r)
      then Inl (Error (blocked_message (the (promptFeedback r))))
      else (case Option.bind (imagePartFromResponse r) inlineData of
              Some idata \<Rightarrow>
                Inr (''data:'' @ template (mimeType idata) @ '';base64,'' @ template (data idata))
            | None \<Rightarrow>
                (let fr = (case first_candidate r of None \<Rightarrow> None | Some c \<Rightarrow> finishReason c)
                 in if truthy fr \<and> fr \<noteq> Some ''STOP''
                    then Inl (Error (stopped_message ctx (template fr)))
                    else Inl (Error (no_image_message ctx
                                       (map_option trim (response_text r)))))))"

text \<open>
  The four classes of a response, in the words of the specification: blocked when the
  prompt feedback carries a block reason; otherwise success when the first candidate
  holds an inline image part; otherwise stopped early when the finish reason is present
  and not \<open>STOP\<close>; otherwise no image returned.
\<close>

datatype response_class = Blocked | NoImageReturned | ModelStoppedEarly | Success

definition carries_block_reason :: "response \<Rightarrow> bool" where
  "carries_block_reason r =
     (case promptFeedback r of
        None \<Rightarrow> False
      | Some pf \<Rightarrow> (case blockReason pf of None \<Rightarrow> False | Some why \<Rightarrow> why \<noteq> []))"

definition has_inline_image :: "response \<Rightarrow> bool" where
  "has_inline_image r =
     (case candidates r of
        Some (c # cs) \<Rightarrow>
          (case content_parts c of
             None \<Rightarrow> False
           | Some ps \<Rightarrow> list_ex (\<lambda>p. inlineData p \<noteq> None) ps)
      | _ \<Rightarrow> False)"

definition stopped_early :: "response \<Rightarrow> bool" where
  "stopped_early r =
     (case candidates r of
        Some (c # cs) \<Rightarrow>
          (case finishReason c of None \<Rightarrow> False | Some fr \<Rightarrow> fr \<noteq> [] \<and> fr \<noteq> ''STOP'')
      | _ \<Rightarrow> False)"

definition classify :: "response \<Rightarrow> response_class" where
  "classify r =
     (if carries_block_reason r then Blocked
      else if has_inline_image r then Success
      else if stopped_early r then ModelStoppedEarly
      else NoImageReturned)"

text \<open>Concrete artifacts for evaluating the handlers.\<close>

definition sample_file :: "string \<Rightarrow> File" where
  "sample_file n = \<lparr> file_name = n, file_type = ''image/png'', file_bytes = [] \<rparr>"

text \<open>Concrete responses, one of each class.\<close>

definition r_image :: response where
  "r_image = \<lparr> promptFeedback = None,
      candidates = Some [\<lparr> content_parts = Some [\<lparr> inlineData = None \<rparr>,
          \<lparr> inlineData = Some \<lparr> mimeType = Some ''image/png'', data = Some ''AAEC'' \<rparr> \<rparr>],
        finishReason = Some ''STOP'' \<rparr>],
      response_text = None \<rparr>"

definition r_blocked :: response where
  "r_blocked = \<lparr> promptFeedback = Some \<lparr> blockReason = Some ''SAFETY'', blockReasonMessage = None \<rparr>,
      candidates = None, response_text = None \<rparr>"

definition r_stopped :: response where
  "r_stopped = \<lparr> promptFeedback = None,
      candidates = Some [\<lparr> content_parts = None, finishReason = Some ''MAX_TOKENS'' \<rparr>],
      response_text = None \<rparr>"

definition r_text :: response where
  "r_text = \<lparr> promptFeedback = None,
      candidates = Some [\<lparr> content_parts = Some [\<lparr> inlineData = None \<rparr>],
        finishReason = Some ''STOP'' \<rparr>],
      response_text = Some '' no cats today '' \<rparr>"

section \<open>Document store and credit ledger\<close>

text \<open>
  The two collections of the document store: \<open>users/{uid}\<close> and
  \<open>users/{uid}/gallery/{id}\<close>. A gallery document holds every field of a
  \<open>GeneratedImage\<close> but its id.
\<close>

record gallery_doc =
  doc_url :: string
  doc_prompt :: string
  doc_isUpscaled :: bool
  doc_createdAt :: int

record store =
  users :: "string \<rightharpoonup> User"
  galleryDocs :: "string \<times> string \<rightharpoonup> gallery_doc"

text \<open>The identity handed over by the auth service; \<open>email!\<close> is taken at its word.\<close>

record auth_user =
  auth_uid :: string
  auth_email :: string
  emailVerified :: bool

text \<open>
  What the outside world answers during one handler: whether each store write is
  accepted (\<open>None\<close>) or rejected with a thrown value, what the remote model calls and the
  blob store return, the id the store gives a new gallery document, and the clock
  readings. \<open>api_result\<close> stands for everything up to and including the
  \<open>generateContent\<close> call, \<open>imagen_result\<close> for the \<open>generateImages\<close> call. Reads of an
  existing document succeed.
\<close>

record generated_entry =
  entry_image :: "string option option"

record imagen_response =
  generatedImages :: "generated_entry list option"

record env =
  debit_write :: "exn option"
  debit_time :: int
  api_result :: "exn + response"
  imagen_result :: "exn + imagen_response"
  file_time :: int
  upload_result :: "exn + string"
  gallery_add :: "exn + string"
  gallery_time :: int
  gallery_write :: "exn option"
  refund_write :: "exn option"
  refund_time :: int

text \<open>How an \<open>async\<close> handler ends: it returns a value or its promise rejects.\<close>

datatype 'a completion = Returned 'a | Threw exn

definition bind_exn :: "exn + 'a \<Rightarrow> ('a \<Rightarrow> exn + 'b) \<Rightarrow> exn + 'b" where
  "bind_exn m f = (case m of Inl e \<Rightarrow> Inl e | Inr x \<Rightarrow> f x)"

text \<open>Decimal rendering of a whole number inside a template.\<close>

fun show_nat :: "nat \<Rightarrow> string" where
  "show_nat n =
     (if n < 10 then [''0123456789'' ! n]
      else show_nat (n div 10) @ [''0123456789'' ! (n mod 10)])"

declare show_nat.simps [simp del]

definition show_int :: "int \<Rightarrow> string" where
  "show_int i = (if i < 0 then CHR ''-'' # show_nat (nat (- i)) else show_nat (nat i))"

text \<open>\<open>s.toLowerCase()\<close> on the ASCII letters.\<close>

definition lower_char :: "char \<Rightarrow> char" where
  "lower_char c =
     (case map_of (zip ''ABCDEFGHIJKLMNOPQRSTUVWXYZ'' ''abcdefghijklmnopqrstuvwxyz'') c of
        None \<Rightarrow> c
      | Some l \<Rightarrow> l)"

definition toLowerCase :: "string \<Rightarrow> string" where
  "toLowerCase s = map lower_char s"

definition not_found_text :: string where
  "not_found_text = ''No document to update''"

definition createUserProfile ::
    "exn option \<Rightarrow> int \<Rightarrow> store \<Rightarrow> auth_user \<Rightarrow> string \<Rightarrow> exn + store" where
  "createUserProfile set_write now st userAuth name =
     (let newUser = \<lparr> uid = auth_uid userAuth,
                       user_name = name,
                       email = auth_email userAuth,
                       credits = 25,
                       creditHistory = [\<lparr> reason = ''Sign-up bonus'', amount = 25, date = now \<rparr>] \<rparr>
      in case set_write of
           Some e \<Rightarrow> Inl e
         | None \<Rightarrow> Inr (st\<lparr> users := (users st)(auth_uid userAuth \<mapsto> newUser) \<rparr>))"

text \<open>The stable sort of the credit history, newest first.\<close>

definition newest_first :: "User \<Rightarrow> User" where
  "newest_first user =
     user\<lparr> creditHistory := sort_key (\<lambda>t. - date t) (creditHistory user) \<rparr>"

definition getUserProfile :: "store \<Rightarrow> string \<Rightarrow> User option" where
  "getUserProfile st u =
     (case users st u of
        None \<Rightarrow> None
      | Some user \<Rightarrow> Some (newest_first user))"

text \<open>
  \<open>FieldValue.increment\<close> and \<open>FieldValue.arrayUnion\<close>, applied to a user document in one
  write: the element is appended unless the array already holds an equal one.
\<close>

definition arrayUnion :: "'a list \<Rightarrow> 'a \<Rightarrow> 'a list" where
  "arrayUnion xs x = (if x \<in> set xs then xs else xs @ [x])"

definition adjusted :: "User \<Rightarrow> CreditTransaction \<Rightarrow> User" where
  "adjusted user newTransaction =
     user\<lparr> credits := credits user + amount newTransaction,
           creditHistory := arrayUnion (creditHistory user) newTransaction \<rparr>"

definition ledger_write :: "store \<Rightarrow> string \<Rightarrow> User \<Rightarrow> store" where
  "ledger_write st u user = st\<lparr> users := (users st)(u \<mapsto> user) \<rparr>"

definition updateUserCredits ::
    "exn option \<Rightarrow> int \<Rightarrow> store \<Rightarrow> string \<Rightarrow> int \<Rightarrow> string \<Rightarrow> exn + store \<times> User option" where
  "updateUserCredits update_write now st u amt why =
     (let newTransaction = \<lparr> reason = why, amount = amt, date = now \<rparr> in
      case update_write of
        Some e \<Rightarrow> Inl e
      | None \<Rightarrow>
          (case users st u of
             None \<Rightarrow> Inl (Error not_found_text)
           | Some user \<Rightarrow>
               (let st' = ledger_write st u (adjusted user newTransaction)
                in Inr (st', getUserProfile st' u))))"

record image_update =
  upd_url :: "string option"
  upd_prompt :: "string option"
  upd_isUpscaled :: "bool option"
  upd_createdAt :: "int option"

definition apply_update :: "gallery_doc \<Rightarrow> image_update \<Rightarrow> gallery_doc" where
  "apply_update d u =
     \<lparr> doc_url = (case upd_url u of None \<Rightarrow> doc_url d | Some v \<Rightarrow> v),
       doc_prompt = (case upd_prompt u of None \<Rightarrow> doc_prompt d | Some v \<Rightarrow> v),
       doc_isUpscaled = (case upd_isUpscaled u of None \<Rightarrow> doc_isUpscaled d | Some v \<Rightarrow> v),
       doc_createdAt = (case upd_createdAt u of None \<Rightarrow> doc_createdAt d | Some v \<Rightarrow> v) \<rparr>"

definition with_id :: "string \<Rightarrow> gallery_doc \<Rightarrow> GeneratedImage" where
  "with_id i d =
     \<lparr> img_id = i, img_url = doc_url d, img_prompt = doc_prompt d,
       isUpscaled = doc_isUpscaled d, createdAt = doc_createdAt d \<rparr>"

definition updateGalleryImage ::
    "exn option \<Rightarrow> store \<Rightarrow> string \<Rightarrow> string \<Rightarrow> image_update \<Rightarrow> exn + store \<times> GeneratedImage" where
  "updateGalleryImage update_write st u imageId upd =
     (case update_write of
        Some e \<Rightarrow> Inl e
      | None \<Rightarrow>
          (case galleryDocs st (u, imageId) of
             None \<Rightarrow> Inl (Error not_found_text)
           | Some d \<Rightarrow>
               (let d' = apply_update d upd;
                    st' = st\<lparr> galleryDocs := (galleryDocs st)((u, imageId) \<mapsto> d') \<rparr>
                in Inr (st', with_id imageId d'))))"

definition addImageToGallery ::
    "exn + string \<Rightarrow> store \<Rightarrow> string \<Rightarrow> gallery_doc \<Rightarrow> exn + store \<times> GeneratedImage" where
  "addImageToGallery added st u imageData =
     (case added of
        Inl e \<Rightarrow> Inl e
      | Inr newId \<Rightarrow>
          Inr (st\<lparr> galleryDocs := (galleryDocs st)((u, newId) \<mapsto> imageData) \<rparr>,
               with_id newId imageData))"

section \<open>Credit-metered operations\<close>

definition need_credits_message :: "int \<Rightarrow> int \<Rightarrow> string" where
  "need_credits_message amt have =
     ''You need '' @ show_int amt @ '' credits for this action, but you only have ''
       @ show_int have @ ''. Please purchase more.''"

definition handleDeductCredits ::
    "env \<Rightarrow> store \<Rightarrow> app \<Rightarrow> int \<Rightarrow> string \<Rightarrow> bool completion \<times> store \<times> app" where
  "handleDeductCredits ev st s amt why =
     (case currentUser s of
        None \<Rightarrow> (Returned False, st, s)
      | Some cu \<Rightarrow>
          if credits cu < amt
          then (Returned False, st,
                s\<lparr> error := Some (need_credits_message amt (credits cu)), appMode := pricing \<rparr>)
          else (case updateUserCredits (debit_write ev) (debit_time ev) st (uid cu) (- amt) why of
                  Inl e \<Rightarrow> (Threw e, st, s)
                | Inr (st', updatedUser) \<Rightarrow>
                    (case updatedUser of
                       Some u \<Rightarrow> (Returned True, st', s\<lparr> currentUser := Some u \<rparr>)
                     | None \<Rightarrow> (Returned False, st', s))))"

text \<open>
  The \<open>try\<close> block of \<open>handleGenericEdit\<close> up to the new file: the awaited edit, then
  the conversion of its data URL.
\<close>

definition edit_try :: "env \<Rightarrow> exn + string \<Rightarrow> string \<Rightarrow> exn + File" where
  "edit_try ev editResult fileSuffix =
     bind_exn editResult (\<lambda>resultUrl.
       dataURLtoFile resultUrl (fileSuffix @ ''-'' @ show_int (file_time ev) @ ''.png''))"

text \<open>
  \<open>handleGenericEdit\<close>. \<open>editResult\<close> is what awaiting \<open>editFunction()\<close> gives. The
  result is \<open>undefined\<close> (\<open>None\<close>), \<open>true\<close> or \<open>false\<close>; a rejected debit or refund write
  leaves the promise rejected, after the \<open>finally\<close> clause has run.
\<close>

definition handleGenericEdit ::
    "env \<Rightarrow> exn + string \<Rightarrow> store \<Rightarrow> app \<Rightarrow> int \<Rightarrow> string \<Rightarrow> string
       \<Rightarrow> bool option completion \<times> store \<times> app" where
  "handleGenericEdit ev editResult st s cost why fileSuffix =
     (case currentImage s of
        None \<Rightarrow> (Returned None, st, s\<lparr> error := Some ''No image loaded to edit.'' \<rparr>)
      | Some img \<Rightarrow>
          (case handleDeductCredits ev st s cost why of
             (Threw e, st1, s1) \<Rightarrow> (Threw e, st1, s1)
           | (Returned False, st1, s1) \<Rightarrow> (Returned None, st1, s1)
           | (Returned True, st1, s1) \<Rightarrow>
               (let s2 = s1\<lparr> isLoading := True, error := None \<rparr> in
                case edit_try ev editResult fileSuffix of
                  Inr newImageFile \<Rightarrow>
                    (Returned (Some True), st1,
                     (addImageToHistory newImageFile s2)\<lparr> isLoading := False \<rparr>)
                | Inl err \<Rightarrow>
                    (let s3 = s2\<lparr> error := Some (''Failed to '' @ toLowerCase why @ ''. ''
                                            @ err_message err) \<rparr> in
                     case updateUserCredits (refund_write ev) (refund_time ev) st1
                            (uid (the (currentUser s))) cost (''Refund: '' @ why) of
                       Inl e \<Rightarrow> (Threw e, st1, s3\<lparr> isLoading := False \<rparr>)
                     | Inr (st2, refundedUser) \<Rightarrow>
                         (Returned (Some False), st2,
                          (case refundedUser of
                             Some u \<Rightarrow> s3\<lparr> currentUser := Some u \<rparr>
                           | None \<Rightarrow> s3)\<lparr> isLoading := False \<rparr>)))))"

text \<open>The three gateway calls behind the edit tabs differ only in the context they name.\<close>

definition generateEditedImage :: "exn + response \<Rightarrow> exn + string" where
  "generateEditedImage api = bind_exn api (\<lambda>r. handleApiResponse r ''edit'')"



text \<open>The local edit of the \<open>App\<close> component.\<close>

definition handleGenerate :: "env \<Rightarrow> store \<Rightarrow> app \<Rightarrow> unit completion \<times> store \<times> app" where
  "handleGenerate ev st s =
     (if trim (prompt s) = [] \<or> editHotspot s = None
      then (Returned (), st,
            s\<lparr> error := Some (if trim (prompt s) = [] then ''Please enter a prompt.''
                               else ''Please select an area on the image.'') \<rparr>)
      else (case handleGenericEdit ev (generateEditedImage (api_result ev)) st s 2
                   ''AI Local Edit'' ''edited'' of
              (Threw e, st', s') \<Rightarrow> (Threw e, st', s')
            | (Returned success, st', s') \<Rightarrow>
                (Returned (), st',
                 if success = Some True
                 then s'\<lparr> editHotspot := None, displayHotspot := None \<rparr>
                 else s')))"



section \<open>Gallery and image generation\<close>

text \<open>\<open>err instanceof Error ? err.message : dflt\<close>, for the wrappers with their own default.\<close>

definition message_or :: "string \<Rightarrow> exn \<Rightarrow> string" where
  "message_or dflt e = (case e of NonError \<Rightarrow> dflt | _ \<Rightarrow> err_message e)"

definition type_error_text :: string where
  "type_error_text = ''Cannot read properties of undefined (reading 'imageBytes')''"

definition no_generated_image_text :: string where
  "no_generated_image_text =
     ''The AI model did not return an image. This might be due to safety filters or an ''
       @ ''issue with the prompt. Please try a different prompt.''"

definition generateImage :: "exn + imagen_response \<Rightarrow> exn + string" where
  "generateImage api =
     (case bind_exn api (\<lambda>resp.
             case generatedImages resp of
               Some (g # gs) \<Rightarrow>
                 (case entry_image g of
                    None \<Rightarrow> Inl (Error type_error_text)
                  | Some base64ImageBytes \<Rightarrow>
                      if truthy base64ImageBytes
                      then Inr (''data:image/jpeg;base64,'' @ template base64ImageBytes)
                      else Inl (Error no_generated_image_text))
             | _ \<Rightarrow> Inl (Error no_generated_image_text)) of
        Inr imageUrl \<Rightarrow> Inr imageUrl
      | Inl err \<Rightarrow>
          Inl (Error (''Failed to generate image. ''
                 @ message_or ''An unknown error occurred during image generation.'' err)))"

definition dataUrlToPart :: "string \<Rightarrow> exn + inline_data" where
  "dataUrlToPart dataUrl =
     (let arr = js_split CHR '','' dataUrl in
      if length arr < 2 then Inl (Error ''Invalid data URL'')
      else (case match_mime (arr ! 0) of
              None \<Rightarrow> Inl (Error ''Could not parse MIME type from data URL'')
            | Some m \<Rightarrow>
                if m = [] then Inl (Error ''Could not parse MIME type from data URL'')
                else Inr \<lparr> mimeType = Some m, data = Some (arr ! 1) \<rparr>))"

text \<open>
  \<open>upscaleImage\<close>: the stored reference is parsed as a data URL before the \<open>try\<close>
  block, so a parse error leaves the function unwrapped.
\<close>

definition upscaleImage :: "string \<Rightarrow> exn + response \<Rightarrow> exn + string" where
  "upscaleImage originalImageUrl api =
     (case dataUrlToPart originalImageUrl of
        Inl e \<Rightarrow> Inl e
      | Inr originalImagePart \<Rightarrow>
          (case bind_exn api (\<lambda>r. handleApiResponse r ''upscale'') of
             Inr u \<Rightarrow> Inr u
           | Inl err \<Rightarrow>
               Inl (Error (''Failed to upscale image. ''
                      @ message_or ''An unknown error occurred during image upscaling.'' err))))"

definition handleImageGenerated :: "env \<Rightarrow> store \<Rightarrow> app \<Rightarrow> string \<Rightarrow> string \<Rightarrow> store \<times> app" where
  "handleImageGenerated ev st s imageDataUrl generationPrompt =
     (case currentUser s of
        None \<Rightarrow> (st, s)
      | Some cu \<Rightarrow>
          (let s1 = s\<lparr> isLoading := True \<rparr> in
           case bind_exn (dataURLtoFile imageDataUrl
                            (''generated-'' @ show_int (file_time ev) @ ''.jpeg''))
                  (\<lambda>imageFile. bind_exn (upload_result ev)
                  (\<lambda>downloadUrl.
                     addImageToGallery (gallery_add ev) st (uid cu)
                       \<lparr> doc_url = downloadUrl, doc_prompt = generationPrompt,
                         doc_isUpscaled = False, doc_createdAt = gallery_time ev \<rparr>)) of
             Inr (st', newImageWithId) \<Rightarrow>
               (st', s1\<lparr> allGeneratedImages := newImageWithId # allGeneratedImages s1,
                         appMode := gallery, isLoading := False \<rparr>)
           | Inl err \<Rightarrow>
               (st, s1\<lparr> error := Some (''Failed to save generated image. '' @ err_message err),
                        isLoading := False \<rparr>)))"

text \<open>
  The \<open>try\<close> block of \<open>handleUpscaleImage\<close>: upscale, convert, upload, update the
  stored entry.
\<close>

definition upscale_try ::
    "env \<Rightarrow> store \<Rightarrow> string \<Rightarrow> GeneratedImage \<Rightarrow> exn + store \<times> GeneratedImage" where
  "upscale_try ev st u image0 =
     bind_exn (upscaleImage (img_url image0) (api_result ev))
       (\<lambda>upscaledUrl. bind_exn (dataURLtoFile upscaledUrl
                                   (''upscaled-'' @ img_id image0 @ ''.jpeg''))
       (\<lambda>upscaledFile. bind_exn (upload_result ev)
       (\<lambda>newDownloadUrl.
          updateGalleryImage (gallery_write ev) st u (img_id image0)
            \<lparr> upd_url = Some newDownloadUrl, upd_prompt = None,
              upd_isUpscaled = Some True, upd_createdAt = None \<rparr>)))"

definition handleUpscaleImage ::
    "env \<Rightarrow> store \<Rightarrow> app \<Rightarrow> GeneratedImage \<Rightarrow> GeneratedImage option completion \<times> store \<times> app" where
  "handleUpscaleImage ev st s image0 =
     (case currentUser s of
        None \<Rightarrow> (Returned None, st, s)
      | Some cu \<Rightarrow>
          (let cost = 1 in
           case handleDeductCredits ev st s cost (''Upscale: '' @ img_id image0) of
             (Threw e, st1, s1) \<Rightarrow> (Threw e, st1, s1)
           | (Returned False, st1, s1) \<Rightarrow> (Returned None, st1, s1)
           | (Returned True, st1, s1) \<Rightarrow>
               (case upscale_try ev st1 (uid cu) image0 of
                  Inr (st2, updatedImage) \<Rightarrow>
                    (Returned (Some updatedImage), st2,
                     s1\<lparr> allGeneratedImages :=
                           map (\<lambda>img. if img_id img = img_id image0 then updatedImage else img)
                             (allGeneratedImages s1) \<rparr>)
                | Inl err \<Rightarrow>
                    (let s2 = s1\<lparr> error := Some (''Failed to upscale image. ''
                                            @ err_message err) \<rparr> in
                     case updateUserCredits (refund_write ev) (refund_time ev) st1 (uid cu) cost
                            (''Refund: Upscale '' @ img_id image0) of
                       Inl e \<Rightarrow> (Threw e, st1, s2)
                     | Inr (st2, refundedUser) \<Rightarrow>
                         (Returned (Some image0), st2,
                          (case refundedUser of
                             Some u \<Rightarrow> s2\<lparr> currentUser := Some u \<rparr>
                           | None \<Rightarrow> s2))))))"

text \<open>
  The form state of the \<open>ImageGenerator\<close> component, and its \<open>handleGenerate\<close>, with
  \<open>onDeductCredits\<close> and \<open>onImageGenerated\<close> bound to the two handlers of \<open>App\<close>.
\<close>

record generator =
  gen_prompt :: string
  gen_isLoading :: bool
  gen_error :: "string option"

definition ImageGenerator_handleGenerate ::
    "env \<Rightarrow> store \<Rightarrow> app \<Rightarrow> generator \<Rightarrow> unit completion \<times> store \<times> app \<times> generator" where
  "ImageGenerator_handleGenerate ev st s g =
     (if trim (gen_prompt g) = []
      then (Returned (), st, s,
            g\<lparr> gen_error := Some ''Please enter a prompt to generate an image.'' \<rparr>)
      else (let cost = 2 in
            case handleDeductCredits ev st s cost ''Image Generation'' of
              (Threw e, st1, s1) \<Rightarrow> (Threw e, st1, s1, g)
            | (Returned False, st1, s1) \<Rightarrow> (Returned (), st1, s1, g)
            | (Returned True, st1, s1) \<Rightarrow>
                (let g1 = g\<lparr> gen_isLoading := True, gen_error := None \<rparr> in
                 case generateImage (imagen_result ev) of
                   Inr imageUrl \<Rightarrow>
                     (let (st2, s2) = handleImageGenerated ev st1 s1 imageUrl (gen_prompt g)
                      in (Returned (), st2, s2, g1\<lparr> gen_isLoading := False \<rparr>))
                 | Inl err \<Rightarrow>
                     (Returned (), st1, s1,
                      g1\<lparr> gen_error := Some (err_message err), gen_isLoading := False \<rparr>))))"

text \<open>A signed-in session with a given balance, for evaluating the handlers.\<close>

definition sample_user :: "int \<Rightarrow> User" where
  "sample_user c = \<lparr> uid = ''u1'', user_name = ''Ada'', email = ''ada@example.org'',
     credits = c, creditHistory = [] \<rparr>"

definition sample_store :: "int \<Rightarrow> store" where
  "sample_store c = \<lparr> users = [''u1'' \<mapsto> sample_user c],
     galleryDocs = [(''u1'', ''g1'') \<mapsto> \<lparr> doc_url = ''data:image/jpeg;base64,AAEC'',
        doc_prompt = ''a cat'', doc_isUpscaled = False, doc_createdAt = 5 \<rparr>] \<rparr>"

definition sample_image :: GeneratedImage where
  "sample_image = \<lparr> img_id = ''g1'', img_url = ''data:image/jpeg;base64,AAEC'',
     img_prompt = ''a cat'', isUpscaled = False, createdAt = 5 \<rparr>"

definition sample_app :: "int \<Rightarrow> app" where
  "sample_app c = initial_app\<lparr> currentUser := Some (sample_user c),
     allGeneratedImages := [sample_image] \<rparr>"

definition sample_editor :: "int \<Rightarrow> app" where
  "sample_editor c = (handleImageUpload (sample_file ''A'') (sample_app c))
     \<lparr> prompt := ''make the sky blue'', activeTab := localEdit,
       editHotspot := Some \<lparr> px = 3, py = 4 \<rparr>, displayHotspot := Some \<lparr> px = 1, py = 2 \<rparr> \<rparr>"

text \<open>An outside world in which every call succeeds, and one whose model call fails.\<close>

definition env_ok :: env where
  "env_ok = \<lparr> debit_write = None, debit_time = 100, api_result = Inr r_image,
     imagen_result = Inr \<lparr> generatedImages = Some [\<lparr> entry_image = Some (Some ''AAEC'') \<rparr>] \<rparr>,
     file_time = 101, upload_result = Inr ''https://blobs.example/new'',
     gallery_add = Inr ''g2'', gallery_time = 102, gallery_write = None,
     refund_write = None, refund_time = 103 \<rparr>"

definition env_fail :: env where
  "env_fail = env_ok\<lparr> api_result := Inl (Error ''network down''),
     imagen_result := Inl (Error ''network down'') \<rparr>"

section \<open>Vocabulary of the ledger properties\<close>



text \<open>The balance the store holds for a user, and the balance the session shows.\<close>

definition stored_balance :: "store \<Rightarrow> string \<Rightarrow> int option" where
  "stored_balance st u = map_option credits (users st u)"

definition shown_balance :: "app \<Rightarrow> int option" where
  "shown_balance s = map_option credits (currentUser s)"

definition sample_generator :: generator where
  "sample_generator = \<lparr> gen_prompt = ''a cat'', gen_isLoading = False, gen_error = None \<rparr>"

text \<open>
  A local edit succeeds when it is attempted (prompt and hotspot present, image loaded,
  credits debited) and the edit and the conversion of its result give a file.
\<close>

definition local_edit_succeeds :: "env \<Rightarrow> store \<Rightarrow> app \<Rightarrow> bool" where
  "local_edit_succeeds ev st s =
     (trim (prompt s) \<noteq> [] \<and> editHotspot s \<noteq> None \<and> currentImage s \<noteq> None
      \<and> fst (handleDeductCredits ev st s 2 ''AI Local Edit'') = Returned True
      \<and> (case edit_try ev (generateEditedImage (api_result ev)) ''edited'' of
            Inr f \<Rightarrow> True
          | Inl err \<Rightarrow> False))"

section \<open>History: invariant and navigation\<close>

text \<open>From here on: what the definitions above satisfy.\<close>

lemma slice0_in_range:
  "0 \<le> e \<Longrightarrow> e \<le> int (length xs) \<Longrightarrow> slice0 xs e = take (nat e) xs"
  by (simp add: slice0_def Let_def min_def)

lemma cursor_ok_step: "cursor_ok s \<Longrightarrow> cursor_ok (history_step s x)"
  by (cases x)
     (auto simp: cursor_ok_def handleImageUpload_def addImageToHistory_def handleUndo_def
        handleRedo_def handleReset_def canUndo_def canRedo_def slice0_def Let_def
        split: if_splits)

lemma cursor_ok_foldl: "cursor_ok s \<Longrightarrow> cursor_ok (foldl history_step s ops)"
  by (induction ops arbitrary: s) (simp_all add: cursor_ok_step)

lemma cursor_ok_run: "cursor_ok (run_history ops)"
  unfolding run_history_def
  by (rule cursor_ok_foldl) (simp add: cursor_ok_def initial_app_def)

text \<open>
  C8. Upload replaces the whole history by the one uploaded file and puts the cursor on
  it, whatever the session held before; it also clears both hotspot cells and both crop
  cells and selects the default tab \<open>promptEdit\<close>.
\<close>

theorem upload_replaces_session:
  "history (handleImageUpload f s) = [f]
   \<and> historyIndex (handleImageUpload f s) = 0
   \<and> currentImage (handleImageUpload f s) = Some f
   \<and> editHotspot (handleImageUpload f s) = None
   \<and> displayHotspot (handleImageUpload f s) = None
   \<and> crop (handleImageUpload f s) = None
   \<and> completedCrop (handleImageUpload f s) = None
   \<and> activeTab (handleImageUpload f s) = promptEdit"
  by (simp add: handleImageUpload_def currentImage_def js_index_def)

subsection \<open>Linear history and reset\<close>

text \<open>
  C2. In every state reached from the empty session by uploads, appends, undos, redos and
  resets, the cursor is -1 when the history is empty and lies between 0 and length - 1
  otherwise; appending there keeps exactly the entries up to the cursor, pushes the new
  artifact, and leaves the cursor on the last entry, so when the cursor was below
  length - 1 the entries after it are gone.
\<close>

theorem history_linearity:
  assumes "s = run_history ops"
  shows "(history s = [] \<longrightarrow> historyIndex s = -1)
    \<and> (history s \<noteq> [] \<longrightarrow> 0 \<le> historyIndex s \<and> historyIndex s \<le> int (length (history s)) - 1)
    \<and> history (addImageToHistory f s) = take (nat (historyIndex s + 1)) (history s) @ [f]
    \<and> historyIndex (addImageToHistory f s) = int (length (history (addImageToHistory f s))) - 1
    \<and> historyIndex (addImageToHistory f s) = historyIndex s + 1
    \<and> (historyIndex s < int (length (history s)) - 1 \<longrightarrow>
         length (history (addImageToHistory f s)) \<le> length (history s)
         \<and> drop (nat (historyIndex s + 1)) (history (addImageToHistory f s)) = [f])"
proof -
  have ok: "cursor_ok s" using assms cursor_ok_run by simp
  then have rng: "0 \<le> historyIndex s + 1" "historyIndex s + 1 \<le> int (length (history s))"
    by (auto simp: cursor_ok_def split: if_splits)
  have sl: "slice0 (history s) (historyIndex s + 1) = take (nat (historyIndex s + 1)) (history s)"
    using rng by (rule slice0_in_range)
  have h: "history (addImageToHistory f s) = take (nat (historyIndex s + 1)) (history s) @ [f]"
    by (simp add: addImageToHistory_def Let_def sl)
  have i: "historyIndex (addImageToHistory f s) = int (length (history (addImageToHistory f s))) - 1"
    by (simp add: addImageToHistory_def Let_def)
  have k: "length (take (nat (historyIndex s + 1)) (history s)) = nat (historyIndex s + 1)"
    using rng by simp
  have j: "historyIndex (addImageToHistory f s) = historyIndex s + 1"
    unfolding i h using k rng by simp
  show ?thesis
    using ok h i j k rng by (auto simp: cursor_ok_def split: if_splits)
qed

theorem history_linearity_witness:
  "history (run_history [Upload (sample_file ''A''), Append (sample_file ''B''),
        Append (sample_file ''C''), Undo])
     = [sample_file ''A'', sample_file ''B'', sample_file ''C'']
   \<and> historyIndex (run_history [Upload (sample_file ''A''), Append (sample_file ''B''),
        Append (sample_file ''C''), Undo]) = 1
   \<and> history (addImageToHistory (sample_file ''D'')
        (run_history [Upload (sample_file ''A''), Append (sample_file ''B''),
           Append (sample_file ''C''), Undo]))
     = [sample_file ''A'', sample_file ''B'', sample_file ''D'']
   \<and> historyIndex (addImageToHistory (sample_file ''D'')
        (run_history [Upload (sample_file ''A''), Append (sample_file ''B''),
           Append (sample_file ''C''), Undo])) = 2"
proof -
  let ?ops = "[Upload (sample_file ''A''), Append (sample_file ''B''),
        Append (sample_file ''C''), Undo]"
  have s: "run_history ?ops = initial_app\<lparr> history := [sample_file ''A'', sample_file ''B'', sample_file ''C''],
      historyIndex := 1, appMode := editor \<rparr>"
    by (simp add: run_history_def initial_app_def handleImageUpload_def addImageToHistory_def
        handleUndo_def canUndo_def slice0_def Let_def)
  show ?thesis
    using history_linearity[OF refl, of ?ops "sample_file ''D''"]
    by (simp add: s)
qed

text \<open>
  C5 fails as stated: after a reset on a history of two entries redo is available and
  steps to the second entry.
\<close>

theorem reset_redo_counterexample:
  "history (run_history [Upload (sample_file ''A''), Append (sample_file ''B'')]) \<noteq> []
   \<and> canRedo (handleReset (run_history [Upload (sample_file ''A''), Append (sample_file ''B'')]))
   \<and> currentImage (handleRedo (handleReset
        (run_history [Upload (sample_file ''A''), Append (sample_file ''B'')])))
     = Some (sample_file ''B'')"
  by (simp add: run_history_def initial_app_def handleImageUpload_def addImageToHistory_def
        handleReset_def handleRedo_def canRedo_def slice0_def Let_def currentImage_def js_index_def)

text \<open>
  C5, amended. \<open>handleReset\<close> changes nothing on an empty history. On a non-empty one
  it puts the cursor on index 0 and keeps the sequence whole, so the current artifact is
  the original, undo is unavailable, and redo is available exactly when the history has
  more than one entry; an append made there discards the later versions, leaving the
  original and the new artifact with redo unavailable.
\<close>

theorem reset_to_original:
  "(history s = [] \<longrightarrow> handleReset s = s)
   \<and> (history s \<noteq> [] \<longrightarrow>
        historyIndex (handleReset s) = 0
        \<and> history (handleReset s) = history s
        \<and> currentImage (handleReset s) = Some (hd (history s))
        \<and> currentImage (handleReset s) = originalImage s
        \<and> \<not> canUndo (handleReset s)
        \<and> (canRedo (handleReset s) \<longleftrightarrow> length (history s) > 1)
        \<and> history (addImageToHistory f (handleReset s)) = [hd (history s), f]
        \<and> \<not> canRedo (addImageToHistory f (handleReset s)))"
  by (cases "history s")
     (auto simp: handleReset_def currentImage_def originalImage_def js_index_def canUndo_def
        canRedo_def addImageToHistory_def slice0_def Let_def)

theorem reset_to_original_witness:
  "handleReset initial_app = initial_app
   \<and> historyIndex (handleReset (run_history [Upload (sample_file ''A''), Append (sample_file ''B'')])) = 0
   \<and> currentImage (handleReset (run_history [Upload (sample_file ''A''), Append (sample_file ''B'')]))
       = Some (sample_file ''A'')
   \<and> canRedo (handleReset (run_history [Upload (sample_file ''A''), Append (sample_file ''B'')]))"
proof -
  let ?s = "run_history [Upload (sample_file ''A''), Append (sample_file ''B'')]"
  have s: "history ?s = [sample_file ''A'', sample_file ''B'']"
    by (simp add: run_history_def initial_app_def handleImageUpload_def addImageToHistory_def
        slice0_def Let_def)
  have e: "history initial_app = []" by (simp add: initial_app_def)
  show ?thesis
    using reset_to_original[of initial_app] reset_to_original[of ?s] e s by simp
qed

section \<open>Artifact conversion\<close>

lemma js_split_ne: "js_split c s \<noteq> []"
  by (induction s) (auto split: list.splits)

lemma js_split_hd: "hd (js_split c s) = takeWhile (\<lambda>x. x \<noteq> c) s"
  by (induction s) (auto split: list.splits simp: js_split_ne)

lemma js_split_tl:
  "tl (js_split c s) = (if c \<in> set s then js_split c (tl (dropWhile (\<lambda>x. x \<noteq> c) s)) else [])"
  by (induction s) (auto split: list.splits simp: js_split_ne)

lemma js_split_length: "length (js_split c s) < 2 \<longleftrightarrow> c \<notin> set s"
proof -
  have "length (js_split c s) = Suc (length (tl (js_split c s)))"
    using js_split_ne[of c s] by (cases "js_split c s") auto
  then show ?thesis
    using js_split_ne[of c "tl (dropWhile (\<lambda>x. x \<noteq> c) s)"]
    by (auto simp: js_split_tl)
qed

lemma js_split_nth0: "js_split c s ! 0 = takeWhile (\<lambda>x. x \<noteq> c) s"
  using js_split_ne[of c s] js_split_hd[of c s] by (cases "js_split c s") auto

lemma js_split_nth1:
  "c \<in> set s \<Longrightarrow> js_split c s ! Suc 0 = takeWhile (\<lambda>x. x \<noteq> c) (tl (dropWhile (\<lambda>x. x \<noteq> c) s))"
proof -
  assume a: "c \<in> set s"
  have "js_split c s ! Suc 0 = hd (tl (js_split c s))"
    using js_split_ne[of c s] js_split_ne[of c "tl (dropWhile (\<lambda>x. x \<noteq> c) s)"] a js_split_tl[of c s]
    by (cases "js_split c s") (auto simp: hd_conv_nth)
  then show ?thesis using a by (simp add: js_split_tl js_split_hd)
qed

lemma fill_u8_gen:
  "n \<le> length bstr \<Longrightarrow> length u8arr = length bstr \<Longrightarrow>
     fill_u8 bstr n u8arr = map of_nat (take n bstr) @ drop n u8arr"
proof (induction n arbitrary: u8arr)
  case 0
  then show ?case by simp
next
  case (Suc n)
  let ?v = "of_nat (bstr ! n) :: 8 word"
  have n: "n < length u8arr" "n < length bstr" using Suc.prems by simp_all
  have "drop n (u8arr[n := ?v]) = ?v # drop (Suc n) u8arr"
    using n by (simp add: Cons_nth_drop_Suc[symmetric])
  moreover have "fill_u8 bstr n (u8arr[n := ?v]) = map of_nat (take n bstr) @ drop n (u8arr[n := ?v])"
    using Suc.prems by (intro Suc.IH) simp_all
  ultimately show ?case
    using n by (simp add: take_Suc_conv_app_nth)
qed

lemma fill_u8_all:
  "fill_u8 bstr (length bstr) (replicate (length bstr) 0) = map of_nat bstr"
  by (simp add: fill_u8_gen)

lemma lazy_group_canonical:
  "CHR '';'' \<notin> set g \<Longrightarrow> \<forall>c \<in> set g. \<not> line_terminator c \<Longrightarrow>
     lazy_group (g @ CHR '';'' # post) = Some g"
  by (induction g) auto

lemma match_mime_canonical:
  "CHR '':'' \<notin> set pre \<Longrightarrow> CHR '';'' \<notin> set g \<Longrightarrow> \<forall>c \<in> set g. \<not> line_terminator c \<Longrightarrow>
     match_mime (pre @ CHR '':'' # g @ CHR '';'' # post) = Some g"
  by (induction pre) (auto simp: lazy_group_canonical)







lemma dataURLtoFile_parsed:
  "CHR '','' \<in> set d \<Longrightarrow> match_mime (header_of d) = Some mime \<Longrightarrow> mime \<noteq> [] \<Longrightarrow>
     dataURLtoFile d fn =
       (case atob (body_of d) of
          None \<Rightarrow> Inl InvalidCharacterError
        | Some bstr \<Rightarrow> Inr \<lparr> file_name = fn, file_type = mime, file_bytes = map of_nat bstr \<rparr>)"
  by (simp add: dataURLtoFile_def Let_def js_split_length js_split_nth0 js_split_nth1
        header_of_def body_of_def fill_u8_all split: option.splits)

lemma canonical_parts:
  assumes "CHR '','' \<notin> set mime" "CHR '','' \<notin> set body"
  shows "header_of (''data:'' @ mime @ '';base64,'' @ body) = ''data:'' @ mime @ '';base64''"
    and "body_of (''data:'' @ mime @ '';base64,'' @ body) = body"
    and "CHR '','' \<in> set (''data:'' @ mime @ '';base64,'' @ body)"
  using assms by (auto simp: header_of_def body_of_def takeWhile_append dropWhile_append takeWhile_eq_all_conv dropWhile_eq_Nil_conv)



subsection \<open>Decoding inverts encoding\<close>

lemma b64_char_code:
  "n < 64 \<Longrightarrow> (of_char (b64_char n) :: nat) =
     (if n < 26 then 65 + n else if n < 52 then 71 + n else if n < 62 then n - 4
      else if n = 62 then 43 else 47)"
  by (simp add: b64_char_def)

lemma b64_value_char: "n < 64 \<Longrightarrow> b64_value (b64_char n) = Some n"
  by (auto simp: b64_value_def b64_char_code Let_def)

lemma char_eq_code: "c = d \<longleftrightarrow> (of_char c :: nat) = of_char d"
  by simp

lemma b64_char_plain:
  assumes "n < 64"
  shows "\<not> ascii_whitespace (b64_char n)" and "b64_char n \<noteq> CHR ''=''"
  using assms
  by (auto simp: ascii_whitespace_def char_eq_code[of "b64_char n"] b64_char_code)

lemma b64_digits_lt: "\<forall>b \<in> set bs. b < 256 \<Longrightarrow> \<forall>d \<in> set (b64_digits bs). d < 64"
  by (induction bs rule: b64_digits.induct) auto

lemma split3:
  fixes a b c :: nat
  assumes "b < 256" "c < 256"
  shows "(a * 65536 + b * 256 + c) div 65536 = a"
    and "(a * 65536 + b * 256 + c) div 256 = a * 256 + b"
    and "(a * 65536 + b * 256 + c) mod 256 = c"
proof -
  have r: "b * 256 + c < 65536" using assms by linarith
  have "a * 65536 + b * 256 + c = (b * 256 + c) + a * 65536" by simp
  then show "(a * 65536 + b * 256 + c) div 65536 = a"
    using r by simp
  have e: "a * 65536 + b * 256 + c = c + (a * 256 + b) * 256" by simp
  show "(a * 65536 + b * 256 + c) div 256 = a * 256 + b"
    unfolding e using assms(2) by simp
  have "(c + (a * 256 + b) * 256) mod 256 = c"
    using assms(2) by (simp only: mod_mult_self1 mod_less)
  then show "(a * 65536 + b * 256 + c) mod 256 = c"
    by (simp only: e)
qed

lemma regroup_generic:
  fixes x y u v w z :: nat
  shows "x * 262144 + (y * 16 + u) * 4096 + (v * 4 + w) * 64 + z
           = (4 * x + y) * 65536 + (16 * u + v) * 256 + (64 * w + z)"
    and "x * 4096 + (y * 16 + u) * 64 + v * 4 = ((4 * x + y) * 256 + (16 * u + v)) * 4"
    and "x * 64 + y * 16 = (4 * x + y) * 16"
  by simp_all

lemma regroup3:
  fixes a b c :: nat
  shows "a div 4 * 262144 + ((a mod 4) * 16 + b div 16) * 4096
           + ((b mod 16) * 4 + c div 64) * 64 + c mod 64 = a * 65536 + b * 256 + c"
    and "a div 4 * 4096 + ((a mod 4) * 16 + b div 16) * 64 + (b mod 16) * 4 = (a * 256 + b) * 4"
    and "a div 4 * 64 + (a mod 4) * 16 = a * 16"
  unfolding regroup_generic by simp_all

lemma b64_bytes_digits: "\<forall>b \<in> set bs. b < 256 \<Longrightarrow> b64_bytes (b64_digits bs) = bs"
proof (induction bs rule: b64_digits.induct)
  case (1 a b c rest)
  then have lt: "a < 256" "b < 256" "c < 256" and r: "b64_bytes (b64_digits rest) = rest"
    by simp_all
  have m: "(a * 256 + b) mod 256 = b" "a mod 256 = a" using lt by simp_all
  have "b64_bytes (b64_digits (a # b # c # rest)) = a # b # c # b64_bytes (b64_digits rest)"
    by (simp only: b64_digits.simps b64_bytes.simps Let_def regroup3 split3[OF lt(2,3)] m)
  then show ?case using r by simp
next
  case (2 a b)
  then have lt: "a < 256" "b < 256" by simp_all
  have m: "(a * 256 + b) mod 256 = b" "(a * 256 + b) div 256 mod 256 = a" using lt by simp_all
  have d: "(a * 256 + b) * 4 div 4 = a * 256 + b" by simp
  show ?case
    by (simp only: b64_digits.simps b64_bytes.simps Let_def regroup3 d m)
next
  case (3 a)
  then have lt: "a < 256" by simp
  have d: "a * 16 div 16 mod 256 = a" using lt by simp
  show ?case
    by (simp only: b64_digits.simps b64_bytes.simps Let_def regroup3 d)
next
  case 4
  then show ?case by simp
qed


lemma length_b64_digits:
  "length (b64_digits bs) mod 4 = (if length bs mod 3 = 0 then 0 else length bs mod 3 + 1)"
proof (induction bs rule: b64_digits.induct)
  case (1 a b c rest)
  have "length (a # b # c # rest) mod 3 = length rest mod 3" by (simp; presburger?)
  moreover have "length (b64_digits (a # b # c # rest)) mod 4 = length (b64_digits rest) mod 4"
    by (simp; presburger?)
  ultimately show ?case using 1 by presburger
qed simp_all

lemma strip_padding_two:
  "length xs mod 4 = 2 \<Longrightarrow> strip_padding (xs @ ''=='') = xs"
  by (simp add: strip_padding_def) presburger

lemma strip_padding_one:
  "length xs mod 4 = 3 \<Longrightarrow> last xs \<noteq> CHR ''='' \<Longrightarrow> strip_padding (xs @ ''='') = xs"
proof -
  assume l: "length xs mod 4 = 3" and n: "last xs \<noteq> CHR ''=''"
  then have "xs \<noteq> []" by auto
  then obtain ys y where xs: "xs = ys @ [y]" by (metis rev_exhaust)
  have "length (xs @ ''='') mod 4 = 0" using l by simp presburger
  then show ?thesis using n xs by (simp add: strip_padding_def)
qed

lemma strip_padding_none:
  "length xs mod 4 = 0 \<Longrightarrow> CHR ''='' \<notin> set xs \<Longrightarrow> strip_padding xs = xs"
proof (cases "rev xs")
  case Nil
  then show ?thesis by (simp add: strip_padding_def)
next
  case (Cons a r)
  assume "CHR ''='' \<notin> set xs"
  then have "CHR ''='' \<notin> set (rev xs)" by simp
  then have "a \<noteq> CHR ''=''" using Cons by auto
  then show ?thesis using Cons by (cases r) (simp_all add: strip_padding_def)
qed


lemma atob_btoa:
  assumes "\<forall>b \<in> set bs. b < 256"
  shows "atob (btoa bs) = Some bs"
proof -
  let ?ds = "b64_digits bs"
  let ?core = "map b64_char ?ds"
  let ?pad = "replicate ((3 - length bs mod 3) mod 3) CHR ''=''"
  have lt: "\<forall>d \<in> set ?ds. d < 64" using assms by (rule b64_digits_lt)
  have plain: "\<forall>c \<in> set ?core. \<not> ascii_whitespace c \<and> c \<noteq> CHR ''=''"
    using lt b64_char_plain by auto
  have nows: "filter (\<lambda>c. \<not> ascii_whitespace c) (btoa bs) = btoa bs"
    using plain by (auto simp: btoa_def ascii_whitespace_def filter_id_conv)
  have len: "length ?core mod 4 = (if length bs mod 3 = 0 then 0 else length bs mod 3 + 1)"
    using length_b64_digits[of bs] by simp
  have strip: "strip_padding (btoa bs) = ?core"
  proof -
    consider "length bs mod 3 = 0" | "length bs mod 3 = 1" | "length bs mod 3 = 2"
      by linarith
    then show ?thesis
    proof cases
      case 1
      then have "?pad = []" by simp
      moreover have "strip_padding ?core = ?core"
        using 1 len plain by (intro strip_padding_none) auto
      ultimately show ?thesis by (simp add: btoa_def)
    next
      case 2
      then have "?pad = ''==''" by (simp add: numeral_2_eq_2)
      moreover have "strip_padding (?core @ ''=='') = ?core"
        using 2 len by (intro strip_padding_two) simp
      ultimately show ?thesis by (simp add: btoa_def)
    next
      case 3
      then have p: "?pad = ''=''" by simp
      have l: "length ?core mod 4 = 3" using 3 len by simp
      then have "?core \<noteq> []" by auto
      then have "last ?core \<in> set ?core" by (rule last_in_set)
      then have "last ?core \<noteq> CHR ''=''" using plain by blast
      then have "strip_padding (?core @ ''='') = ?core"
        using l by (intro strip_padding_one)
      then show ?thesis using p by (simp add: btoa_def)
    qed
  qed
  have ne1: "length ?core mod 4 \<noteq> 1" using len by auto
  have valid: "\<not> (\<exists>c \<in> set ?core. b64_value c = None)"
    using lt b64_value_char by auto
  have vals: "map (\<lambda>c. the (b64_value c)) ?core = ?ds"
    using lt b64_value_char by (simp add: map_idI)
  have "atob (btoa bs) = Some (b64_bytes (map (\<lambda>c. the (b64_value c)) ?core))"
    unfolding atob_def nows strip Let_def using ne1 valid by (simp only: if_False)
  then show ?thesis
    by (simp only: vals b64_bytes_digits[OF assms])
qed

lemma b64_char_not_comma: "n < 64 \<Longrightarrow> b64_char n \<noteq> CHR '',''"
  by (auto simp: char_eq_code[of "b64_char n"] b64_char_code)

lemma btoa_no_comma:
  assumes "\<forall>b \<in> set bs. b < 256"
  shows "CHR '','' \<notin> set (btoa bs)"
proof
  assume "CHR '','' \<in> set (btoa bs)"
  then have "CHR '','' \<in> b64_char ` set (b64_digits bs)"
    by (auto simp: btoa_def)
  then obtain n where "n \<in> set (b64_digits bs)" "b64_char n = CHR '',''" by auto
  with b64_digits_lt[OF assms] b64_char_not_comma[of n] show False by auto
qed

text \<open>
  A data URL written by the host for the bytes \<open>bs\<close> under a well-formed MIME type is
  converted back to exactly those bytes under that type.
\<close>

lemma dataURLtoFile_round_trip:
  assumes "\<forall>b \<in> set bs. b < 256" "mime \<noteq> []"
    "\<forall>c \<in> set mime. c \<noteq> CHR '';'' \<and> c \<noteq> CHR '','' \<and> \<not> line_terminator c"
  shows "dataURLtoFile (''data:'' @ mime @ '';base64,'' @ btoa bs) fn =
     Inr \<lparr> file_name = fn, file_type = mime, file_bytes = map of_nat bs \<rparr>"
proof -
  let ?d = "''data:'' @ mime @ '';base64,'' @ btoa bs"
  have m: "CHR '','' \<notin> set mime" "CHR '';'' \<notin> set mime" "\<forall>c \<in> set mime. \<not> line_terminator c"
    using assms(3) by auto
  have body: "CHR '','' \<notin> set (btoa bs)" using assms(1) by (rule btoa_no_comma)
  have h: "header_of ?d = ''data'' @ CHR '':'' # mime @ CHR '';'' # ''base64''"
    using canonical_parts(1)[OF m(1) body] by simp
  have "match_mime (header_of ?d) = Some mime"
    unfolding h by (rule match_mime_canonical) (use m in simp_all)
  moreover have "CHR '','' \<in> set ?d" "body_of ?d = btoa bs"
    using canonical_parts(2,3)[OF m(1) body] by simp_all
  ultimately show ?thesis
    using dataURLtoFile_parsed[of ?d mime fn] assms(2) atob_btoa[OF assms(1)] by simp
qed

section \<open>Gateway response classification\<close>

lemma carries_block_reason_iff:
  "carries_block_reason r \<longleftrightarrow>
     (\<exists>pf why. promptFeedback r = Some pf \<and> blockReason pf = Some why \<and> why \<noteq> [])"
  by (auto simp: carries_block_reason_def split: option.splits)

lemma has_inline_image_iff:
  "has_inline_image r \<longleftrightarrow>
     (\<exists>cs c ps. candidates r = Some (c # cs) \<and> content_parts c = Some ps
        \<and> (\<exists>p \<in> set ps. inlineData p \<noteq> None))"
  by (auto simp: has_inline_image_def list_ex_iff split: option.splits list.splits)

lemma stopped_early_iff:
  "stopped_early r \<longleftrightarrow>
     (\<exists>cs c fr. candidates r = Some (c # cs) \<and> finishReason c = Some fr
        \<and> fr \<noteq> [] \<and> fr \<noteq> ''STOP'')"
  by (auto simp: stopped_early_def split: option.splits list.splits)

lemma truthy_blockReason: "truthy (response_blockReason r) \<longleftrightarrow> carries_block_reason r"
  by (cases "promptFeedback r"; cases "blockReason (the (promptFeedback r))")
     (auto simp: response_blockReason_def carries_block_reason_iff)

lemma find_inlineData:
  "Option.bind (List.find (\<lambda>p. inlineData p \<noteq> None) ps) inlineData \<noteq> None
     \<longleftrightarrow> (\<exists>p \<in> set ps. inlineData p \<noteq> None)"
  by (induction ps) auto

lemma imagePart_iff:
  "Option.bind (imagePartFromResponse r) inlineData \<noteq> None \<longleftrightarrow> has_inline_image r"
proof (cases "candidates r")
  case None
  then show ?thesis
    by (simp add: imagePartFromResponse_def first_candidate_def has_inline_image_iff)
next
  case (Some cs)
  show ?thesis
  proof (cases cs)
    case Nil
    then show ?thesis using Some
      by (simp add: imagePartFromResponse_def first_candidate_def has_inline_image_iff js_index_def)
  next
    case (Cons c cs')
    show ?thesis
    proof (cases "content_parts c")
      case None
      then show ?thesis using Some Cons
        by (simp add: imagePartFromResponse_def first_candidate_def has_inline_image_iff js_index_def)
    next
      case (Some ps)
      then show ?thesis using \<open>candidates r = Some cs\<close> Cons find_inlineData[of ps]
        by (simp add: imagePartFromResponse_def first_candidate_def has_inline_image_iff js_index_def)
    qed
  qed
qed

lemma stopped_iff:
  "(let fr = (case first_candidate r of None \<Rightarrow> None | Some c \<Rightarrow> finishReason c)
    in truthy fr \<and> fr \<noteq> Some ''STOP'') \<longleftrightarrow> stopped_early r"
proof (cases "candidates r")
  case None
  then show ?thesis by (simp add: first_candidate_def stopped_early_iff)
next
  case (Some cs)
  then show ?thesis
    by (cases cs; cases "finishReason (hd cs)")
       (auto simp: first_candidate_def stopped_early_iff js_index_def)
qed

lemma stopped_finishReason:
  "stopped_early r \<Longrightarrow>
     \<exists>c fr. first_candidate r = Some c \<and> finishReason c = Some fr \<and> fr \<noteq> [] \<and> fr \<noteq> ''STOP''"
  by (auto simp: stopped_early_iff first_candidate_def js_index_def)


lemma find_inlineData_Some:
  "(\<exists>p \<in> set ps. inlineData p \<noteq> None) \<Longrightarrow>
     \<exists>p idata. p \<in> set ps \<and> inlineData p = Some idata
        \<and> Option.bind (List.find (\<lambda>p. inlineData p \<noteq> None) ps) inlineData = Some idata"
  by (induction ps) auto

lemma sublist_ctx_stopped: "sublist ctx (stopped_message ctx fr)"
  unfolding stopped_message_def by (intro sublist_appendI)

lemma sublist_ctx_no_image: "sublist ctx (no_image_message ctx tf)"
  unfolding no_image_message_def by (intro sublist_appendI)

lemma blocked_message_eq:
  "blockReason pf = Some why \<Longrightarrow>
     blocked_message pf = ''Request was blocked. Reason: '' @ why @ ''. ''
        @ (case blockReasonMessage pf of None \<Rightarrow> [] | Some m \<Rightarrow> m)"
  by (cases "blockReasonMessage pf") (simp_all add: blocked_message_def)

text \<open>
  C6 fails as stated, twice: the error raised for a blocked response does not mention
  the operation context, and a response whose only inline image part sits in its second
  candidate is answered with the no-image error.
\<close>

theorem handleApiResponse_counterexample:
  "classify \<lparr> promptFeedback = Some \<lparr> blockReason = Some ''SAFETY'', blockReasonMessage = None \<rparr>,
              candidates = None, response_text = None \<rparr> = Blocked
   \<and> handleApiResponse
        \<lparr> promptFeedback = Some \<lparr> blockReason = Some ''SAFETY'', blockReasonMessage = None \<rparr>,
          candidates = None, response_text = None \<rparr> ''edit''
       = Inl (Error ''Request was blocked. Reason: SAFETY. '')
   \<and> \<not> sublist ''edit'' ''Request was blocked. Reason: SAFETY. ''
   \<and> response_blockReason
        \<lparr> promptFeedback = None,
          candidates = Some [\<lparr> content_parts = Some [], finishReason = Some ''STOP'' \<rparr>,
            \<lparr> content_parts = Some [\<lparr> inlineData =
                 Some \<lparr> mimeType = Some ''image/png'', data = Some ''AAEC'' \<rparr> \<rparr>],
              finishReason = Some ''STOP'' \<rparr>],
          response_text = None \<rparr> = None
   \<and> handleApiResponse
        \<lparr> promptFeedback = None,
          candidates = Some [\<lparr> content_parts = Some [], finishReason = Some ''STOP'' \<rparr>,
            \<lparr> content_parts = Some [\<lparr> inlineData =
                 Some \<lparr> mimeType = Some ''image/png'', data = Some ''AAEC'' \<rparr> \<rparr>],
              finishReason = Some ''STOP'' \<rparr>],
          response_text = None \<rparr> ''edit''
       = Inl (Error (no_image_message ''edit'' None))"
  by (simp add: classify_def carries_block_reason_def handleApiResponse_def
        response_blockReason_def blocked_message_def sublist_Cons_right
        imagePartFromResponse_def first_candidate_def js_index_def)

text \<open>
  C6, amended. Every response falls in exactly one of the four classes, and
  \<open>handleApiResponse\<close> returns a payload exactly when the response carries no block
  reason and its first candidate holds an inline image part; the payload is the data URL
  of such a part. In the three other classes it throws one \<open>Error\<close>: for a blocked
  response the message gives the block reason and the block message and not the
  operation context; for a response stopped early it gives the context and the finish
  reason; for a response with no image it gives the context and the model's text, if
  any.
\<close>

theorem handleApiResponse_classes:
  "((\<exists>payload. handleApiResponse r ctx = Inr payload)
       \<longleftrightarrow> (\<not> carries_block_reason r \<and> has_inline_image r))
   \<and> (classify r = Success \<longleftrightarrow> (\<exists>payload. handleApiResponse r ctx = Inr payload))
   \<and> (classify r = Success \<longrightarrow>
        (\<exists>c cs ps p idata. candidates r = Some (c # cs) \<and> content_parts c = Some ps
           \<and> p \<in> set ps \<and> inlineData p = Some idata
           \<and> handleApiResponse r ctx =
               Inr (''data:'' @ template (mimeType idata) @ '';base64,'' @ template (data idata))))
   \<and> (classify r = Blocked \<longrightarrow>
        (\<exists>pf why. promptFeedback r = Some pf \<and> blockReason pf = Some why
           \<and> handleApiResponse r ctx =
               Inl (Error (''Request was blocked. Reason: '' @ why @ ''. ''
                      @ (case blockReasonMessage pf of None \<Rightarrow> [] | Some m \<Rightarrow> m)))))
   \<and> (classify r = ModelStoppedEarly \<longrightarrow>
        (\<exists>c fr. first_candidate r = Some c \<and> finishReason c = Some fr
           \<and> handleApiResponse r ctx = Inl (Error (stopped_message ctx fr))
           \<and> sublist ctx (stopped_message ctx fr) \<and> sublist fr (stopped_message ctx fr)))
   \<and> (classify r = NoImageReturned \<longrightarrow>
        handleApiResponse r ctx =
          Inl (Error (no_image_message ctx (map_option trim (response_text r))))
        \<and> sublist ctx (no_image_message ctx (map_option trim (response_text r))))"
proof -
  let ?img = "Option.bind (imagePartFromResponse r) inlineData"
  let ?fr = "case first_candidate r of None \<Rightarrow> None | Some c \<Rightarrow> finishReason c"
  have blk: "truthy (response_blockReason r) \<longleftrightarrow> carries_block_reason r"
    by (rule truthy_blockReason)
  have img: "?img \<noteq> None \<longleftrightarrow> has_inline_image r"
    by (rule imagePart_iff)
  have stp: "(truthy ?fr \<and> ?fr \<noteq> Some ''STOP'') \<longleftrightarrow> stopped_early r"
    using stopped_iff[of r] by (simp add: Let_def)
  have A: "(\<exists>payload. handleApiResponse r ctx = Inr payload)
       \<longleftrightarrow> (\<not> carries_block_reason r \<and> has_inline_image r)"
    unfolding img[symmetric] blk[symmetric]
    by (auto simp: handleApiResponse_def Let_def split: option.splits)
  have B: "classify r = Success \<longleftrightarrow> (\<exists>payload. handleApiResponse r ctx = Inr payload)"
    unfolding A by (simp add: classify_def)
  have C: "\<exists>c cs ps p idata. candidates r = Some (c # cs) \<and> content_parts c = Some ps
           \<and> p \<in> set ps \<and> inlineData p = Some idata
           \<and> handleApiResponse r ctx =
               Inr (''data:'' @ template (mimeType idata) @ '';base64,'' @ template (data idata))"
    if "classify r = Success"
  proof -
    from that have nb: "\<not> truthy (response_blockReason r)" and hi: "has_inline_image r"
      using blk by (auto simp: classify_def split: if_splits)
    from hi obtain c cs ps where c: "candidates r = Some (c # cs)" "content_parts c = Some ps"
      and ex: "\<exists>p \<in> set ps. inlineData p \<noteq> None"
      unfolding has_inline_image_iff by blast
    from find_inlineData_Some[OF ex] obtain p idata where p: "p \<in> set ps" "inlineData p = Some idata"
      and f: "Option.bind (List.find (\<lambda>p. inlineData p \<noteq> None) ps) inlineData = Some idata"
      by blast
    have "?img = Some idata"
      using c f by (simp add: imagePartFromResponse_def first_candidate_def js_index_def)
    then have "handleApiResponse r ctx =
       Inr (''data:'' @ template (mimeType idata) @ '';base64,'' @ template (data idata))"
      using nb by (simp add: handleApiResponse_def)
    then show ?thesis using c p by blast
  qed
  have D: "\<exists>pf why. promptFeedback r = Some pf \<and> blockReason pf = Some why
           \<and> handleApiResponse r ctx =
               Inl (Error (''Request was blocked. Reason: '' @ why @ ''. ''
                      @ (case blockReasonMessage pf of None \<Rightarrow> [] | Some m \<Rightarrow> m)))"
    if "classify r = Blocked"
  proof -
    from that have cb: "carries_block_reason r"
      by (auto simp: classify_def split: if_splits)
    then obtain pf why where pf: "promptFeedback r = Some pf" "blockReason pf = Some why"
      by (auto simp: carries_block_reason_iff)
    have "handleApiResponse r ctx = Inl (Error (blocked_message pf))"
      using cb blk pf by (simp add: handleApiResponse_def)
    then show ?thesis using pf blocked_message_eq[OF pf(2)] by auto
  qed
  have E: "\<exists>c fr. first_candidate r = Some c \<and> finishReason c = Some fr
           \<and> handleApiResponse r ctx = Inl (Error (stopped_message ctx fr))
           \<and> sublist ctx (stopped_message ctx fr) \<and> sublist fr (stopped_message ctx fr)"
    if "classify r = ModelStoppedEarly"
  proof -
    from that have nb: "\<not> truthy (response_blockReason r)" and ni: "?img = None"
      and se: "stopped_early r"
      using blk img by (auto simp: classify_def split: if_splits)
    from stopped_finishReason[OF se] obtain c fr where
      c: "first_candidate r = Some c" "finishReason c = Some fr" "fr \<noteq> []" "fr \<noteq> ''STOP''"
      by blast
    have "handleApiResponse r ctx = Inl (Error (stopped_message ctx fr))"
      using nb ni c by (simp add: handleApiResponse_def)
    moreover have "sublist fr (stopped_message ctx fr)"
      unfolding stopped_message_def
      by (metis append.assoc sublist_appendI)
    ultimately show ?thesis using c sublist_ctx_stopped by blast
  qed
  have F: "handleApiResponse r ctx =
          Inl (Error (no_image_message ctx (map_option trim (response_text r))))
        \<and> sublist ctx (no_image_message ctx (map_option trim (response_text r)))"
    if "classify r = NoImageReturned"
  proof -
    from that have nb: "\<not> truthy (response_blockReason r)" and ni: "?img = None"
      and ns: "\<not> (truthy ?fr \<and> ?fr \<noteq> Some ''STOP'')"
      using blk img stp by (auto simp: classify_def split: if_splits)
    have "handleApiResponse r ctx =
          Inl (Error (no_image_message ctx (map_option trim (response_text r))))"
      using nb ni ns by (auto simp: handleApiResponse_def Let_def)
    then show ?thesis using sublist_ctx_no_image by blast
  qed
  from A B C D E F show ?thesis by blast
qed


theorem handleApiResponse_classes_witness:
  "classify r_image = Success
   \<and> handleApiResponse r_image ''filter'' = Inr ''data:image/png;base64,AAEC''
   \<and> classify r_blocked = Blocked
   \<and> handleApiResponse r_blocked ''filter'' = Inl (Error ''Request was blocked. Reason: SAFETY. '')
   \<and> classify r_stopped = ModelStoppedEarly
   \<and> handleApiResponse r_stopped ''filter'' = Inl (Error (stopped_message ''filter'' ''MAX_TOKENS''))
   \<and> classify r_text = NoImageReturned
   \<and> handleApiResponse r_text ''filter'' = Inl (Error (no_image_message ''filter'' (Some ''no cats today'')))"
proof -
  have c1: "classify r_image = Success"
    by (simp add: r_image_def classify_def carries_block_reason_def has_inline_image_def)
  have c2: "classify r_blocked = Blocked"
    by (simp add: r_blocked_def classify_def carries_block_reason_def)
  have c3: "classify r_stopped = ModelStoppedEarly"
    by (simp add: r_stopped_def classify_def carries_block_reason_def has_inline_image_def
        stopped_early_def)
  have c4: "classify r_text = NoImageReturned"
    by (simp add: r_text_def classify_def carries_block_reason_def has_inline_image_def
        stopped_early_def)
  have t: "trim '' no cats today '' = ''no cats today''"
    by (simp add: trim_def js_whitespace_def)
  have 1: "handleApiResponse r_image ''filter'' = Inr ''data:image/png;base64,AAEC''"
    using handleApiResponse_classes[of r_image "''filter''"] c1
    by (auto simp: r_image_def)
  have 2: "handleApiResponse r_blocked ''filter'' = Inl (Error ''Request was blocked. Reason: SAFETY. '')"
    using handleApiResponse_classes[of r_blocked "''filter''"] c2
    by (auto simp: r_blocked_def)
  have 3: "handleApiResponse r_stopped ''filter'' = Inl (Error (stopped_message ''filter'' ''MAX_TOKENS''))"
    using handleApiResponse_classes[of r_stopped "''filter''"] c3
    by (auto simp: r_stopped_def first_candidate_def js_index_def)
  have 4: "handleApiResponse r_text ''filter'' = Inl (Error (no_image_message ''filter'' (Some ''no cats today'')))"
    using handleApiResponse_classes[of r_text "''filter''"] c4 t
    by (auto simp: r_text_def)
  from c1 c2 c3 c4 1 2 3 4 show ?thesis by blast
qed

section \<open>Credit-metered operations: what each handler computes\<close>

lemma updateUserCredits_ok:
  "users st u = Some user \<Longrightarrow>
     updateUserCredits None now st u amt why =
       Inr (ledger_write st u (adjusted user \<lparr> reason = why, amount = amt, date = now \<rparr>),
            Some (newest_first (adjusted user \<lparr> reason = why, amount = amt, date = now \<rparr>)))"
  by (simp add: updateUserCredits_def getUserProfile_def ledger_write_def Let_def)

lemma credits_adjusted [simp]: "credits (adjusted user t) = credits user + amount t"
  by (simp add: adjusted_def)

lemma credits_newest_first [simp]: "credits (newest_first user) = credits user"
  by (simp add: newest_first_def)

lemma uid_adjusted [simp]: "uid (adjusted user t) = uid user"
  by (simp add: adjusted_def)

lemma uid_newest_first [simp]: "uid (newest_first user) = uid user"
  by (simp add: newest_first_def)

lemma users_ledger_write [simp]: "users (ledger_write st u user) u = Some user"
  by (simp add: ledger_write_def)

lemma galleryDocs_ledger_write [simp]: "galleryDocs (ledger_write st u user) = galleryDocs st"
  by (simp add: ledger_write_def)

lemma ledger_write_twice [simp]:
  "ledger_write (ledger_write st u a) u b = ledger_write st u b"
  by (simp add: ledger_write_def)


lemma deduct_ok:
  "currentUser s = Some cu \<Longrightarrow> amt \<le> credits cu \<Longrightarrow> debit_write ev = None \<Longrightarrow>
   users st (uid cu) = Some su \<Longrightarrow>
     handleDeductCredits ev st s amt why =
       (Returned True,
        ledger_write st (uid cu) (adjusted su \<lparr> reason = why, amount = - amt, date = debit_time ev \<rparr>),
        s\<lparr> currentUser := Some (newest_first
              (adjusted su \<lparr> reason = why, amount = - amt, date = debit_time ev \<rparr>)) \<rparr>)"
  by (simp add: handleDeductCredits_def updateUserCredits_ok)

lemma edit_success:
  assumes "currentImage s = Some img" "currentUser s = Some cu" "cost \<le> credits cu"
    "debit_write ev = None" "users st (uid cu) = Some su"
    "edit_try ev editResult fileSuffix = Inr f"
  shows "handleGenericEdit ev editResult st s cost why fileSuffix =
      (Returned (Some True),
       ledger_write st (uid cu) (adjusted su \<lparr> reason = why, amount = - cost, date = debit_time ev \<rparr>),
       (addImageToHistory f
          (s\<lparr> currentUser := Some (newest_first
              (adjusted su \<lparr> reason = why, amount = - cost, date = debit_time ev \<rparr>)),
              isLoading := True, error := None \<rparr>))\<lparr> isLoading := False \<rparr>)"
  using assms by (simp add: handleGenericEdit_def deduct_ok Let_def)

lemma edit_failure:
  assumes "currentImage s = Some img" "currentUser s = Some cu" "cost \<le> credits cu"
    "debit_write ev = None" "users st (uid cu) = Some su"
    "edit_try ev editResult fileSuffix = Inl err"
    "refund_write ev = None"
  shows "handleGenericEdit ev editResult st s cost why fileSuffix =
      (Returned (Some False),
       ledger_write st (uid cu)
         (adjusted (adjusted su \<lparr> reason = why, amount = - cost, date = debit_time ev \<rparr>)
                \<lparr> reason = ''Refund: '' @ why, amount = cost, date = refund_time ev \<rparr>),
       s\<lparr> currentUser := Some (newest_first
              (adjusted (adjusted su \<lparr> reason = why, amount = - cost, date = debit_time ev \<rparr>)
                \<lparr> reason = ''Refund: '' @ why, amount = cost, date = refund_time ev \<rparr>)),
           isLoading := False,
           error := Some (''Failed to '' @ toLowerCase why @ ''. '' @ err_message err) \<rparr>)"
  using assms by (simp add: handleGenericEdit_def deduct_ok Let_def updateUserCredits_ok)

lemma apply_update_upscale:
  "apply_update d \<lparr> upd_url = Some v, upd_prompt = None, upd_isUpscaled = Some b,
      upd_createdAt = None \<rparr> = d\<lparr> doc_url := v, doc_isUpscaled := b \<rparr>"
  by (cases d) (simp add: apply_update_def)

lemma upscale_try_Inr:
  assumes "upscale_try ev st u image0 = Inr (st2, updated)"
  shows "\<exists>d newUrl. galleryDocs st (u, img_id image0) = Some d \<and> upload_result ev = Inr newUrl
     \<and> gallery_write ev = None
     \<and> st2 = st\<lparr> galleryDocs := (galleryDocs st)((u, img_id image0) \<mapsto>
                 d\<lparr> doc_url := newUrl, doc_isUpscaled := True \<rparr>) \<rparr>
     \<and> updated = with_id (img_id image0) (d\<lparr> doc_url := newUrl, doc_isUpscaled := True \<rparr>)"
  using assms
  by (auto simp: upscale_try_def bind_exn_def updateGalleryImage_def apply_update_upscale Let_def
        split: sum.splits option.splits)

lemma upscale_success:
  assumes "currentUser s = Some cu" "1 \<le> credits cu" "debit_write ev = None"
    "users st (uid cu) = Some su"
    "upscale_try ev (ledger_write st (uid cu) (adjusted su
        \<lparr> reason = ''Upscale: '' @ img_id image0, amount = - 1, date = debit_time ev \<rparr>))
       (uid cu) image0 = Inr (st2, updated)"
  shows "handleUpscaleImage ev st s image0 =
     (Returned (Some updated), st2,
      s\<lparr> currentUser := Some (newest_first (adjusted su
            \<lparr> reason = ''Upscale: '' @ img_id image0, amount = - 1, date = debit_time ev \<rparr>)),
         allGeneratedImages :=
           map (\<lambda>img. if img_id img = img_id image0 then updated else img) (allGeneratedImages s) \<rparr>)"
  using assms by (simp add: handleUpscaleImage_def deduct_ok Let_def)

lemma upscale_failure:
  assumes "currentUser s = Some cu" "1 \<le> credits cu" "debit_write ev = None"
    "users st (uid cu) = Some su"
    "upscale_try ev (ledger_write st (uid cu) (adjusted su
        \<lparr> reason = ''Upscale: '' @ img_id image0, amount = - 1, date = debit_time ev \<rparr>))
       (uid cu) image0 = Inl err"
    "refund_write ev = None"
  shows "handleUpscaleImage ev st s image0 =
     (Returned (Some image0),
      ledger_write st (uid cu)
        (adjusted (adjusted su
            \<lparr> reason = ''Upscale: '' @ img_id image0, amount = - 1, date = debit_time ev \<rparr>)
          \<lparr> reason = ''Refund: Upscale '' @ img_id image0, amount = 1, date = refund_time ev \<rparr>),
      s\<lparr> currentUser := Some (newest_first (adjusted (adjusted su
            \<lparr> reason = ''Upscale: '' @ img_id image0, amount = - 1, date = debit_time ev \<rparr>)
          \<lparr> reason = ''Refund: Upscale '' @ img_id image0, amount = 1, date = refund_time ev \<rparr>)),
         error := Some (''Failed to upscale image. '' @ err_message err) \<rparr>)"
  using assms by (simp add: handleUpscaleImage_def deduct_ok Let_def updateUserCredits_ok)

lemma generation_failure:
  assumes "currentUser s = Some cu" "2 \<le> credits cu" "debit_write ev = None"
    "users st (uid cu) = Some su" "trim (gen_prompt g) \<noteq> []"
    "generateImage (imagen_result ev) = Inl err"
  shows "ImageGenerator_handleGenerate ev st s g =
     (Returned (),
      ledger_write st (uid cu) (adjusted su
        \<lparr> reason = ''Image Generation'', amount = - 2, date = debit_time ev \<rparr>),
      s\<lparr> currentUser := Some (newest_first (adjusted su
        \<lparr> reason = ''Image Generation'', amount = - 2, date = debit_time ev \<rparr>)) \<rparr>,
      g\<lparr> gen_isLoading := False, gen_error := Some (err_message err) \<rparr>)"
  using assms by (simp add: ImageGenerator_handleGenerate_def deduct_ok Let_def)

lemma handleImageGenerated_users:
  "users (fst (handleImageGenerated ev st s url p)) = users st
   \<and> currentUser (snd (handleImageGenerated ev st s url p)) = currentUser s"
  by (auto simp: handleImageGenerated_def Let_def bind_exn_def addImageToGallery_def
        split: option.splits sum.splits prod.splits)

lemma generation_success:
  assumes "currentUser s = Some cu" "2 \<le> credits cu" "debit_write ev = None"
    "users st (uid cu) = Some su" "trim (gen_prompt g) \<noteq> []"
    "generateImage (imagen_result ev) = Inr imageUrl"
    "ImageGenerator_handleGenerate ev st s g = (c, st', s', g')"
  shows "users st' (uid cu) = Some (adjusted su
        \<lparr> reason = ''Image Generation'', amount = - 2, date = debit_time ev \<rparr>)
     \<and> currentUser s' = Some (newest_first (adjusted su
        \<lparr> reason = ''Image Generation'', amount = - 2, date = debit_time ev \<rparr>))"
proof -
  let ?st1 = "ledger_write st (uid cu) (adjusted su
        \<lparr> reason = ''Image Generation'', amount = - 2, date = debit_time ev \<rparr>)"
  let ?s1 = "s\<lparr> currentUser := Some (newest_first (adjusted su
        \<lparr> reason = ''Image Generation'', amount = - 2, date = debit_time ev \<rparr>)) \<rparr>"
  have "st' = fst (handleImageGenerated ev ?st1 ?s1 imageUrl (gen_prompt g))"
    and "s' = snd (handleImageGenerated ev ?st1 ?s1 imageUrl (gen_prompt g))"
    using assms
    by (auto simp: ImageGenerator_handleGenerate_def deduct_ok Let_def split: prod.splits)
  then show ?thesis
    using handleImageGenerated_users[of ev ?st1 ?s1 imageUrl "gen_prompt g"] by simp
qed

subsection \<open>Sign-up profile\<close>

text \<open>
  C9. A profile created by \<open>createUserProfile\<close> has a balance of exactly 25 and a credit
  history of exactly one transaction, the sign-up bonus of +25, so the balance is the sum
  of the recorded amounts; reading the profile back gives the same.
\<close>

theorem signup_profile:
  assumes "createUserProfile set_write now st userAuth nm = Inr st'"
  shows "\<exists>u. users st' (auth_uid userAuth) = Some u
     \<and> getUserProfile st' (auth_uid userAuth) = Some u
     \<and> uid u = auth_uid userAuth \<and> user_name u = nm \<and> email u = auth_email userAuth
     \<and> credits u = 25
     \<and> creditHistory u = [\<lparr> reason = ''Sign-up bonus'', amount = 25, date = now \<rparr>]
     \<and> length (creditHistory u) = 1
     \<and> credits u = sum_list (map amount (creditHistory u))"
  using assms
  by (auto simp: createUserProfile_def getUserProfile_def newest_first_def Let_def
        split: option.splits)

theorem signup_profile_witness:
  "createUserProfile None 7 (sample_store 0)
      \<lparr> auth_uid = ''u2'', auth_email = ''bob@example.org'', emailVerified = True \<rparr> ''Bob''
     = Inr ((sample_store 0)\<lparr> users := (users (sample_store 0))(''u2'' \<mapsto>
          \<lparr> uid = ''u2'', user_name = ''Bob'', email = ''bob@example.org'', credits = 25,
            creditHistory = [\<lparr> reason = ''Sign-up bonus'', amount = 25, date = 7 \<rparr>] \<rparr>) \<rparr>)
   \<and> (\<exists>u. getUserProfile ((sample_store 0)\<lparr> users := (users (sample_store 0))(''u2'' \<mapsto>
          \<lparr> uid = ''u2'', user_name = ''Bob'', email = ''bob@example.org'', credits = 25,
            creditHistory = [\<lparr> reason = ''Sign-up bonus'', amount = 25, date = 7 \<rparr>] \<rparr>) \<rparr>) ''u2''
          = Some u \<and> credits u = 25 \<and> length (creditHistory u) = 1)"
proof -
  let ?ua = "\<lparr> auth_uid = ''u2'', auth_email = ''bob@example.org'', emailVerified = True \<rparr>"
  let ?st' = "(sample_store 0)\<lparr> users := (users (sample_store 0))(''u2'' \<mapsto>
          \<lparr> uid = ''u2'', user_name = ''Bob'', email = ''bob@example.org'', credits = 25,
            creditHistory = [\<lparr> reason = ''Sign-up bonus'', amount = 25, date = 7 \<rparr>] \<rparr>) \<rparr>"
  have c: "createUserProfile None 7 (sample_store 0) ?ua ''Bob'' = Inr ?st'"
    by (simp add: createUserProfile_def)
  from signup_profile[OF c] c show ?thesis by auto
qed

subsection \<open>Ledger conservation\<close>

lemma edit_conserves_ledger:
  assumes "currentImage s = Some img" "currentUser s = Some cu" "cost \<le> credits cu"
    "debit_write ev = None" "users st (uid cu) = Some su"
    "handleGenericEdit ev editResult st s cost why sfx = (c, st', s')"
  shows "edit_try ev editResult sfx = Inr f \<Longrightarrow>
           stored_balance st' (uid cu) = Some (credits su - cost)
           \<and> shown_balance s' = Some (credits su - cost)"
    and "edit_try ev editResult sfx = Inl err \<Longrightarrow> refund_write ev = None \<Longrightarrow>
           stored_balance st' (uid cu) = Some (credits su) \<and> shown_balance s' = Some (credits su)"
proof -
  show "stored_balance st' (uid cu) = Some (credits su - cost)
           \<and> shown_balance s' = Some (credits su - cost)"
    if "edit_try ev editResult sfx = Inr f"
    using edit_success[OF assms(1-5) that, of "why"] assms(6)
    by (auto simp: stored_balance_def shown_balance_def addImageToHistory_def Let_def)
  show "stored_balance st' (uid cu) = Some (credits su) \<and> shown_balance s' = Some (credits su)"
    if "edit_try ev editResult sfx = Inl err" "refund_write ev = None"
    using edit_failure[OF assms(1-5) that, of "why"] assms(6)
    by (auto simp: stored_balance_def shown_balance_def)
qed

lemma upscale_conserves_ledger:
  assumes "currentUser s = Some cu" "1 \<le> credits cu" "debit_write ev = None"
    "users st (uid cu) = Some su"
    "handleUpscaleImage ev st s image0 = (c, st', s')"
  shows "upscale_try ev (ledger_write st (uid cu) (adjusted su
            \<lparr> reason = ''Upscale: '' @ img_id image0, amount = - 1, date = debit_time ev \<rparr>))
           (uid cu) image0 = Inr (st2, updated) \<Longrightarrow>
           stored_balance st' (uid cu) = Some (credits su - 1)
           \<and> shown_balance s' = Some (credits su - 1)"
    and "upscale_try ev (ledger_write st (uid cu) (adjusted su
            \<lparr> reason = ''Upscale: '' @ img_id image0, amount = - 1, date = debit_time ev \<rparr>))
           (uid cu) image0 = Inl err \<Longrightarrow> refund_write ev = None \<Longrightarrow>
           stored_balance st' (uid cu) = Some (credits su) \<and> shown_balance s' = Some (credits su)"
proof -
  show "stored_balance st' (uid cu) = Some (credits su - 1)
           \<and> shown_balance s' = Some (credits su - 1)"
    if t: "upscale_try ev (ledger_write st (uid cu) (adjusted su
            \<lparr> reason = ''Upscale: '' @ img_id image0, amount = - 1, date = debit_time ev \<rparr>))
           (uid cu) image0 = Inr (st2, updated)"
    using upscale_success[OF assms(1-4) t] upscale_try_Inr[OF t] assms(5)
    by (auto simp: stored_balance_def shown_balance_def)
  show "stored_balance st' (uid cu) = Some (credits su) \<and> shown_balance s' = Some (credits su)"
    if t: "upscale_try ev (ledger_write st (uid cu) (adjusted su
            \<lparr> reason = ''Upscale: '' @ img_id image0, amount = - 1, date = debit_time ev \<rparr>))
           (uid cu) image0 = Inl err" and r: "refund_write ev = None"
    using upscale_failure[OF assms(1-4) t r] assms(5)
    by (auto simp: stored_balance_def shown_balance_def)
qed

lemma generation_ledger:
  assumes "currentUser s = Some cu" "2 \<le> credits cu" "debit_write ev = None"
    "users st (uid cu) = Some su" "trim (gen_prompt g) \<noteq> []"
    "ImageGenerator_handleGenerate ev st s g = (c, st', s', g')"
  shows "stored_balance st' (uid cu) = Some (credits su - 2)
     \<and> shown_balance s' = Some (credits su - 2)"
proof (cases "generateImage (imagen_result ev)")
  case (Inl err)
  from generation_failure[OF assms(1-5) Inl] assms(6) show ?thesis
    by (auto simp: stored_balance_def shown_balance_def)
next
  case (Inr imageUrl)
  from generation_success[OF assms(1-5) Inr assms(6)] show ?thesis
    by (simp add: stored_balance_def shown_balance_def)
qed

text \<open>
  C1. Ledger conservation (balance less the cost after a success, the initial balance
  after a failure whose refund is written) holds for local edit, filter, adjustment and
  gallery upscale by the three lemmas above, and is broken by image generation: with a
  balance of 5 and a model call that fails, \<open>handleGenerate\<close> of the generator returns
  with the error shown and the balance at 3, in the store and in the session, and no
  refund transaction recorded.
\<close>

theorem generation_failure_keeps_debit:
  "(case ImageGenerator_handleGenerate env_fail (sample_store 5) (sample_app 5) sample_generator of
      (c, st', s', g') \<Rightarrow>
        c = Returned ()
        \<and> stored_balance (sample_store 5) ''u1'' = Some 5
        \<and> stored_balance st' ''u1'' = Some 3
        \<and> shown_balance s' = Some 3
        \<and> map_option creditHistory (users st' ''u1'')
            = Some [\<lparr> reason = ''Image Generation'', amount = - 2, date = 100 \<rparr>]
        \<and> gen_error g' = Some ''Failed to generate image. network down'')"
proof -
  have g: "generateImage (imagen_result env_fail) = Inl (Error ''Failed to generate image. network down'')"
    by (simp add: generateImage_def env_fail_def env_ok_def bind_exn_def message_or_def)
  have t: "trim (gen_prompt sample_generator) \<noteq> []"
    by (simp add: sample_generator_def trim_def js_whitespace_def)
  have "ImageGenerator_handleGenerate env_fail (sample_store 5) (sample_app 5) sample_generator =
     (Returned (),
      ledger_write (sample_store 5) ''u1'' (adjusted (sample_user 5)
        \<lparr> reason = ''Image Generation'', amount = - 2, date = 100 \<rparr>),
      (sample_app 5)\<lparr> currentUser := Some (newest_first (adjusted (sample_user 5)
        \<lparr> reason = ''Image Generation'', amount = - 2, date = 100 \<rparr>)) \<rparr>,
      sample_generator\<lparr> gen_isLoading := False,
        gen_error := Some ''Failed to generate image. network down'' \<rparr>)"
    using generation_failure[of "sample_app 5" "sample_user 5" env_fail "sample_store 5"
        "sample_user 5" sample_generator, OF _ _ _ _ t g]
    by (simp add: sample_app_def sample_user_def sample_store_def env_fail_def env_ok_def)
  then show ?thesis
    by (simp add: stored_balance_def shown_balance_def sample_store_def sample_user_def
        adjusted_def arrayUnion_def)
qed

subsection \<open>Insufficient credits\<close>








subsection \<open>Hotspot\<close>

lemma deduct_keeps_hotspot:
  "handleDeductCredits ev st s amt why = (c, st', s') \<Longrightarrow>
     editHotspot s' = editHotspot s \<and> displayHotspot s' = displayHotspot s
     \<and> currentUser s' \<noteq> None = (currentUser s \<noteq> None)"
  by (auto simp: handleDeductCredits_def split: option.splits if_splits sum.splits prod.splits)

lemma edit_keeps_hotspot:
  assumes "handleGenericEdit ev editResult st s cost why sfx = (c, st', s')"
  shows "editHotspot s' = editHotspot s \<and> displayHotspot s' = displayHotspot s"
proof (cases "currentImage s")
  case None
  then show ?thesis using assms by (auto simp: handleGenericEdit_def)
next
  case (Some img)
  obtain c1 st1 s1 where d: "handleDeductCredits ev st s cost why = (c1, st1, s1)"
    by (cases "handleDeductCredits ev st s cost why") auto
  from deduct_keeps_hotspot[OF d]
  have k: "editHotspot s1 = editHotspot s" "displayHotspot s1 = displayHotspot s" by simp_all
  show ?thesis
    using assms Some d k
    by (auto simp: handleGenericEdit_def Let_def addImageToHistory_def
          split: completion.splits bool.splits sum.splits prod.splits option.splits if_splits)
qed

lemma edit_returns_true_iff:
  "fst (handleGenericEdit ev editResult st s cost why sfx) = Returned (Some True) \<longleftrightarrow>
     (currentImage s \<noteq> None \<and> fst (handleDeductCredits ev st s cost why) = Returned True
      \<and> (case edit_try ev editResult sfx of Inr f \<Rightarrow> True | Inl err \<Rightarrow> False))"
  by (cases "handleDeductCredits ev st s cost why")
     (auto simp: handleGenericEdit_def Let_def
        split: completion.splits bool.splits sum.splits prod.splits option.splits)

text \<open>
  C4 fails as stated: a local edit whose model call fails is refunded and reported, and
  both hotspot cells still hold the selected point.
\<close>

theorem hotspot_kept_counterexample:
  "editHotspot (sample_editor 5) = Some \<lparr> px = 3, py = 4 \<rparr>
   \<and> (case handleGenerate env_fail (sample_store 5) (sample_editor 5) of
        (c, st', s') \<Rightarrow>
          c = Returned ()
          \<and> error s' = Some ''Failed to ai local edit. network down''
          \<and> editHotspot s' = Some \<lparr> px = 3, py = 4 \<rparr>
          \<and> displayHotspot s' = Some \<lparr> px = 1, py = 2 \<rparr>)"
proof -
  have e: "currentUser (sample_editor 5) = Some (sample_user 5)"
    "currentImage (sample_editor 5) = Some (sample_file ''A'')"
    "trim (prompt (sample_editor 5)) \<noteq> []"
    "editHotspot (sample_editor 5) = Some \<lparr> px = 3, py = 4 \<rparr>"
    "displayHotspot (sample_editor 5) = Some \<lparr> px = 1, py = 2 \<rparr>"
    by (simp_all add: sample_editor_def sample_app_def handleImageUpload_def initial_app_def
        currentImage_def js_index_def trim_def js_whitespace_def)
  have t: "edit_try env_fail (generateEditedImage (api_result env_fail)) ''edited''
      = Inl (Error ''network down'')"
    by (simp add: edit_try_def generateEditedImage_def bind_exn_def env_fail_def)
  have l: "toLowerCase ''AI Local Edit'' = ''ai local edit''"
    by (simp add: toLowerCase_def lower_char_def)
  have "handleGenericEdit env_fail (generateEditedImage (api_result env_fail)) (sample_store 5)
          (sample_editor 5) 2 ''AI Local Edit'' ''edited''
      = (Returned (Some False),
         ledger_write (sample_store 5) (uid (sample_user 5))
           (adjusted (adjusted (sample_user 5)
                \<lparr> reason = ''AI Local Edit'', amount = - 2, date = debit_time env_fail \<rparr>)
              \<lparr> reason = ''Refund: '' @ ''AI Local Edit'', amount = 2, date = refund_time env_fail \<rparr>),
         (sample_editor 5)\<lparr> currentUser := Some (newest_first
              (adjusted (adjusted (sample_user 5)
                \<lparr> reason = ''AI Local Edit'', amount = - 2, date = debit_time env_fail \<rparr>)
              \<lparr> reason = ''Refund: '' @ ''AI Local Edit'', amount = 2, date = refund_time env_fail \<rparr>)),
           isLoading := False,
           error := Some (''Failed to '' @ toLowerCase ''AI Local Edit'' @ ''. ''
              @ err_message (Error ''network down'')) \<rparr>)"
    by (rule edit_failure[OF e(2) e(1) _ _ _ t])
       (simp_all add: sample_user_def sample_store_def env_fail_def env_ok_def)
  then show ?thesis
    using e by (simp add: handleGenerate_def l)
qed

text \<open>
  C4, amended. The hotspot is cleared by every undo made while undo is available and by
  every redo made while redo is available (otherwise the handler changes nothing), and
  by a local edit that succeeds. After a local-edit attempt that does not succeed, the
  hotspot is the one selected before.
\<close>

theorem hotspot_clearing:
  "(canUndo s \<longrightarrow> editHotspot (handleUndo s) = None \<and> displayHotspot (handleUndo s) = None)
   \<and> (\<not> canUndo s \<longrightarrow> handleUndo s = s)
   \<and> (canRedo s \<longrightarrow> editHotspot (handleRedo s) = None \<and> displayHotspot (handleRedo s) = None)
   \<and> (\<not> canRedo s \<longrightarrow> handleRedo s = s)
   \<and> (local_edit_succeeds ev st s \<longrightarrow>
        editHotspot (snd (snd (handleGenerate ev st s))) = None
        \<and> displayHotspot (snd (snd (handleGenerate ev st s))) = None)
   \<and> (\<not> local_edit_succeeds ev st s \<longrightarrow>
        editHotspot (snd (snd (handleGenerate ev st s))) = editHotspot s
        \<and> displayHotspot (snd (snd (handleGenerate ev st s))) = displayHotspot s)"
proof -
  let ?g = "handleGenericEdit ev (generateEditedImage (api_result ev)) st s 2
              ''AI Local Edit'' ''edited''"
  obtain c st' s' where g: "?g = (c, st', s')" by (cases ?g) auto
  note k = edit_keeps_hotspot[OF g]
  have iff: "local_edit_succeeds ev st s \<longleftrightarrow>
      (trim (prompt s) \<noteq> [] \<and> editHotspot s \<noteq> None \<and> c = Returned (Some True))"
    using edit_returns_true_iff[of ev "generateEditedImage (api_result ev)" st s 2
        "''AI Local Edit''" "''edited''"] g
    by (auto simp: local_edit_succeeds_def)
  have A: "editHotspot (snd (snd (handleGenerate ev st s))) = None
        \<and> displayHotspot (snd (snd (handleGenerate ev st s))) = None"
    if "local_edit_succeeds ev st s"
    using that iff g by (auto simp: handleGenerate_def)
  have B: "editHotspot (snd (snd (handleGenerate ev st s))) = editHotspot s
        \<and> displayHotspot (snd (snd (handleGenerate ev st s))) = displayHotspot s"
    if "\<not> local_edit_succeeds ev st s"
    using that iff g k by (auto simp: handleGenerate_def split: completion.splits)
  have U: "(canUndo s \<longrightarrow> editHotspot (handleUndo s) = None \<and> displayHotspot (handleUndo s) = None)
   \<and> (\<not> canUndo s \<longrightarrow> handleUndo s = s)
   \<and> (canRedo s \<longrightarrow> editHotspot (handleRedo s) = None \<and> displayHotspot (handleRedo s) = None)
   \<and> (\<not> canRedo s \<longrightarrow> handleRedo s = s)"
    by (simp add: handleUndo_def handleRedo_def)
  from A B U show ?thesis by blast
qed


theorem hotspot_clearing_witness:
  "canUndo (addImageToHistory (sample_file ''B'') (sample_editor 5))
   \<and> editHotspot (addImageToHistory (sample_file ''B'') (sample_editor 5)) \<noteq> None
   \<and> editHotspot (handleUndo (addImageToHistory (sample_file ''B'') (sample_editor 5))) = None
   \<and> canRedo ((addImageToHistory (sample_file ''B'') (sample_editor 5))\<lparr> historyIndex := 0 \<rparr>)
   \<and> editHotspot (handleRedo
         ((addImageToHistory (sample_file ''B'') (sample_editor 5))\<lparr> historyIndex := 0 \<rparr>)) = None
   \<and> \<not> canRedo (sample_editor 5)
   \<and> handleRedo (sample_editor 5) = sample_editor 5
   \<and> \<not> canUndo (sample_editor 5)
   \<and> handleUndo (sample_editor 5) = sample_editor 5
   \<and> local_edit_succeeds env_ok (sample_store 5) (sample_editor 5)
   \<and> editHotspot (snd (snd (handleGenerate env_ok (sample_store 5) (sample_editor 5)))) = None
   \<and> \<not> local_edit_succeeds env_fail (sample_store 5) (sample_editor 5)
   \<and> editHotspot (snd (snd (handleGenerate env_fail (sample_store 5) (sample_editor 5))))
       = Some \<lparr> px = 3, py = 4 \<rparr>"
proof -
  let ?s2 = "addImageToHistory (sample_file ''B'') (sample_editor 5)"
  let ?s3 = "?s2\<lparr> historyIndex := 0 \<rparr>"
  have u: "canUndo ?s2" "editHotspot ?s2 \<noteq> None" "\<not> canRedo (sample_editor 5)"
    "\<not> canUndo (sample_editor 5)" "canRedo ?s3"
    by (simp_all add: canUndo_def canRedo_def addImageToHistory_def sample_editor_def
        handleImageUpload_def sample_app_def initial_app_def slice0_def Let_def)
  have e: "currentUser (sample_editor 5) = Some (sample_user 5)"
    "currentImage (sample_editor 5) = Some (sample_file ''A'')"
    "trim (prompt (sample_editor 5)) \<noteq> []"
    "editHotspot (sample_editor 5) = Some \<lparr> px = 3, py = 4 \<rparr>"
    by (simp_all add: sample_editor_def sample_app_def handleImageUpload_def initial_app_def
        currentImage_def js_index_def trim_def js_whitespace_def)
  have d: "fst (handleDeductCredits ev (sample_store 5) (sample_editor 5) 2 ''AI Local Edit'')
      = Returned True" if "debit_write ev = None" for ev
    using deduct_ok[OF e(1), of 2 ev "sample_store 5" "sample_user 5" "''AI Local Edit''"] that
    by (simp add: sample_user_def sample_store_def)
  have ok: "edit_try env_ok (generateEditedImage (api_result env_ok)) ''edited''
      = Inr \<lparr> file_name = ''edited-101.png'', file_type = ''image/png'', file_bytes = [0, 1, 2] \<rparr>"
    by (simp add: edit_try_def generateEditedImage_def bind_exn_def env_ok_def r_image_def
        handleApiResponse_def response_blockReason_def imagePartFromResponse_def
        first_candidate_def js_index_def dataURLtoFile_def atob_def strip_padding_def
        b64_value_def ascii_whitespace_def line_terminator_def show_int_def show_nat.simps)
  have bad: "edit_try env_fail (generateEditedImage (api_result env_fail)) ''edited''
      = Inl (Error ''network down'')"
    by (simp add: edit_try_def generateEditedImage_def bind_exn_def env_fail_def)
  have s1: "local_edit_succeeds env_ok (sample_store 5) (sample_editor 5)"
    using e d[of env_ok] ok by (simp add: local_edit_succeeds_def env_ok_def)
  have s2: "\<not> local_edit_succeeds env_fail (sample_store 5) (sample_editor 5)"
    using bad by (simp add: local_edit_succeeds_def)
  show ?thesis
    using hotspot_clearing[of ?s2] hotspot_clearing[of ?s3]
      hotspot_clearing[of "sample_editor 5" env_ok "sample_store 5"]
      hotspot_clearing[of "sample_editor 5" env_fail "sample_store 5"] u s1 s2 e(4)
    by simp
qed

subsection \<open>Gallery upscale\<close>

lemma deduct_True:
  assumes "currentUser s = Some cu" "handleDeductCredits ev st s amt why = (Returned True, st1, s1)"
  shows "\<exists>su. users st (uid cu) = Some su \<and> debit_write ev = None \<and> amt \<le> credits cu
     \<and> st1 = ledger_write st (uid cu)
         (adjusted su \<lparr> reason = why, amount = - amt, date = debit_time ev \<rparr>)
     \<and> s1 = s\<lparr> currentUser := Some (newest_first
         (adjusted su \<lparr> reason = why, amount = - amt, date = debit_time ev \<rparr>)) \<rparr>"
  using assms
  by (auto simp: handleDeductCredits_def updateUserCredits_def getUserProfile_def Let_def
        split: if_splits option.splits sum.splits prod.splits)

text \<open>
  A stored reference with no comma in it, such as a plain download link, is rejected
  before the model is called: an upscale can only succeed on a reference that is itself a
  data URL.
\<close>

lemma upscale_needs_data_url:
  "CHR '','' \<notin> set (img_url entry) \<Longrightarrow>
     upscaleImage (img_url entry) api = Inl (Error ''Invalid data URL'')
     \<and> upscale_try ev st u entry = Inl (Error ''Invalid data URL'')"
  by (simp add: upscaleImage_def dataUrlToPart_def js_split_length upscale_try_def bind_exn_def)

text \<open>
  C10. When the credit for a gallery upscale has been debited and the upscale, the
  conversion, the upload and the update of the stored entry all succeed, the stored entry
  changes in its image reference and its upscaled flag only, the flag becoming true; the
  entry returned is the stored entry read back, with the id, the prompt and the creation
  time it had, and it replaces the entries of that id in the session's list. When the
  in-memory entry mirrors the stored one, the entry returned is the given entry with the
  new reference and the flag set. When any of those steps fails, the stored gallery and
  the session's list are untouched and, unless the refund write is rejected, the handler
  returns the given entry itself.
\<close>

theorem upscale_frame:
  assumes "currentUser s = Some cu"
    and "handleDeductCredits ev st s 1 (''Upscale: '' @ img_id entry) = (Returned True, st1, s1)"
  shows "(upscale_try ev st1 (uid cu) entry = Inr (st2, updated) \<longrightarrow>
            handleUpscaleImage ev st s entry =
              (Returned (Some updated), st2,
               s1\<lparr> allGeneratedImages :=
                    map (\<lambda>img. if img_id img = img_id entry then updated else img)
                      (allGeneratedImages s) \<rparr>)
            \<and> img_id updated = img_id entry \<and> isUpscaled updated
            \<and> upload_result ev = Inr (img_url updated)
            \<and> (\<exists>d. galleryDocs st (uid cu, img_id entry) = Some d
                 \<and> galleryDocs st2 = (galleryDocs st)((uid cu, img_id entry) \<mapsto>
                      d\<lparr> doc_url := img_url updated, doc_isUpscaled := True \<rparr>)
                 \<and> img_prompt updated = doc_prompt d \<and> createdAt updated = doc_createdAt d
                 \<and> (with_id (img_id entry) d = entry \<longrightarrow>
                      updated = entry\<lparr> img_url := img_url updated, isUpscaled := True \<rparr>)))
    \<and> (upscale_try ev st1 (uid cu) entry = Inl err \<longrightarrow>
          (case handleUpscaleImage ev st s entry of
             (c, st', s') \<Rightarrow>
               (case refund_write ev of None \<Rightarrow> c = Returned (Some entry) | Some e \<Rightarrow> c = Threw e)
               \<and> galleryDocs st' = galleryDocs st
               \<and> allGeneratedImages s' = allGeneratedImages s))"
proof -
  from deduct_True[OF assms] obtain su where su: "users st (uid cu) = Some su"
    and st1: "st1 = ledger_write st (uid cu)
         (adjusted su \<lparr> reason = ''Upscale: '' @ img_id entry, amount = - 1, date = debit_time ev \<rparr>)"
    and s1: "s1 = s\<lparr> currentUser := Some (newest_first
         (adjusted su \<lparr> reason = ''Upscale: '' @ img_id entry, amount = - 1, date = debit_time ev \<rparr>)) \<rparr>"
    by blast
  have A: "handleUpscaleImage ev st s entry =
              (Returned (Some updated), st2,
               s1\<lparr> allGeneratedImages :=
                    map (\<lambda>img. if img_id img = img_id entry then updated else img)
                      (allGeneratedImages s) \<rparr>)
            \<and> img_id updated = img_id entry \<and> isUpscaled updated
            \<and> upload_result ev = Inr (img_url updated)
            \<and> (\<exists>d. galleryDocs st (uid cu, img_id entry) = Some d
                 \<and> galleryDocs st2 = (galleryDocs st)((uid cu, img_id entry) \<mapsto>
                      d\<lparr> doc_url := img_url updated, doc_isUpscaled := True \<rparr>)
                 \<and> img_prompt updated = doc_prompt d \<and> createdAt updated = doc_createdAt d
                 \<and> (with_id (img_id entry) d = entry \<longrightarrow>
                      updated = entry\<lparr> img_url := img_url updated, isUpscaled := True \<rparr>))"
    if t: "upscale_try ev st1 (uid cu) entry = Inr (st2, updated)"
  proof -
    from upscale_try_Inr[OF t] obtain d newUrl where
      d: "galleryDocs st1 (uid cu, img_id entry) = Some d" and up: "upload_result ev = Inr newUrl"
      and st2: "st2 = st1\<lparr> galleryDocs := (galleryDocs st1)((uid cu, img_id entry) \<mapsto>
                 d\<lparr> doc_url := newUrl, doc_isUpscaled := True \<rparr>) \<rparr>"
      and upd: "updated = with_id (img_id entry) (d\<lparr> doc_url := newUrl, doc_isUpscaled := True \<rparr>)"
      by blast
    have h: "handleUpscaleImage ev st s entry =
              (Returned (Some updated), st2,
               s1\<lparr> allGeneratedImages :=
                    map (\<lambda>img. if img_id img = img_id entry then updated else img)
                      (allGeneratedImages s) \<rparr>)"
      using assms t by (simp add: handleUpscaleImage_def Let_def s1)
    have u: "img_url updated = newUrl" "img_id updated = img_id entry" "isUpscaled updated"
      "img_prompt updated = doc_prompt d" "createdAt updated = doc_createdAt d"
      by (simp_all add: upd with_id_def)
    have m: "with_id (img_id entry) d = entry \<Longrightarrow>
        updated = entry\<lparr> img_url := img_url updated, isUpscaled := True \<rparr>"
      by (cases entry) (auto simp: upd with_id_def)
    show ?thesis
      using h u up d st2 m by (auto simp: st1)
  qed
  have B: "case handleUpscaleImage ev st s entry of
             (c, st', s') \<Rightarrow>
               (case refund_write ev of None \<Rightarrow> c = Returned (Some entry) | Some e \<Rightarrow> c = Threw e)
               \<and> galleryDocs st' = galleryDocs st
               \<and> allGeneratedImages s' = allGeneratedImages s"
    if t: "upscale_try ev st1 (uid cu) entry = Inl err"
  proof (cases "refund_write ev")
    case None
    then show ?thesis
      using assms t
      by (simp add: handleUpscaleImage_def Let_def st1 s1 updateUserCredits_ok)
  next
    case (Some e)
    then show ?thesis
      using assms t
      by (simp add: handleUpscaleImage_def Let_def st1 s1 updateUserCredits_def)
  qed
  from A B show ?thesis by blast
qed


theorem upscale_frame_witness:
  "fst (handleUpscaleImage env_ok (sample_store 5) (sample_app 5) sample_image)
     = Returned (Some (sample_image\<lparr> img_url := ''https://blobs.example/new'', isUpscaled := True \<rparr>))
   \<and> galleryDocs (fst (snd (handleUpscaleImage env_ok (sample_store 5) (sample_app 5) sample_image)))
        (''u1'', ''g1'')
     = Some \<lparr> doc_url = ''https://blobs.example/new'', doc_prompt = ''a cat'',
              doc_isUpscaled = True, doc_createdAt = 5 \<rparr>
   \<and> fst (handleUpscaleImage env_fail (sample_store 5) (sample_app 5) sample_image)
     = Returned (Some sample_image)
   \<and> galleryDocs (fst (snd (handleUpscaleImage env_fail (sample_store 5) (sample_app 5) sample_image)))
     = galleryDocs (sample_store 5)"
proof -
  let ?t = "\<lparr> reason = ''Upscale: '' @ img_id sample_image, amount = - 1, date = 100 \<rparr>"
  let ?st1 = "ledger_write (sample_store 5) (uid (sample_user 5)) (adjusted (sample_user 5) ?t)"
  let ?s1 = "(sample_app 5)\<lparr> currentUser := Some (newest_first (adjusted (sample_user 5) ?t)) \<rparr>"
  let ?d = "\<lparr> doc_url = ''data:image/jpeg;base64,AAEC'', doc_prompt = ''a cat'',
              doc_isUpscaled = False, doc_createdAt = 5 \<rparr>"
  let ?upd = "sample_image\<lparr> img_url := ''https://blobs.example/new'', isUpscaled := True \<rparr>"
  let ?st2 = "?st1\<lparr> galleryDocs := (galleryDocs ?st1)((''u1'', ''g1'') \<mapsto>
      ?d\<lparr> doc_url := ''https://blobs.example/new'', doc_isUpscaled := True \<rparr>) \<rparr>"
  have cu: "currentUser (sample_app 5) = Some (sample_user 5)"
    by (simp add: sample_app_def)
  have d: "handleDeductCredits ev (sample_store 5) (sample_app 5) 1
      (''Upscale: '' @ img_id sample_image) = (Returned True, ?st1, ?s1)"
    if "debit_write ev = None" "debit_time ev = 100" for ev
    using deduct_ok[OF cu, of 1 ev "sample_store 5" "sample_user 5"
        "''Upscale: '' @ img_id sample_image"] that
    by (simp add: sample_user_def sample_store_def)
  have part: "dataUrlToPart (img_url sample_image)
      = Inr \<lparr> mimeType = Some ''image/jpeg'', data = Some ''AAEC'' \<rparr>"
    by (simp add: dataUrlToPart_def sample_image_def line_terminator_def)
  have up_ok: "upscaleImage (img_url sample_image) (api_result env_ok)
      = Inr ''data:image/png;base64,AAEC''"
    by (simp add: upscaleImage_def part bind_exn_def env_ok_def r_image_def
        handleApiResponse_def response_blockReason_def imagePartFromResponse_def
        first_candidate_def js_index_def)
  have up_bad: "upscaleImage (img_url sample_image) (api_result env_fail)
      = Inl (Error ''Failed to upscale image. network down'')"
    by (simp add: upscaleImage_def part bind_exn_def env_fail_def message_or_def)
  have conv: "dataURLtoFile ''data:image/png;base64,AAEC'' ''upscaled-g1.jpeg''
      = Inr \<lparr> file_name = ''upscaled-g1.jpeg'', file_type = ''image/png'', file_bytes = [0, 1, 2] \<rparr>"
    by (simp add: dataURLtoFile_def atob_def strip_padding_def b64_value_def
        ascii_whitespace_def line_terminator_def)
  have id: "img_id sample_image = ''g1''" "uid (sample_user 5) = ''u1''"
    by (simp_all add: sample_image_def sample_user_def)
  have gd: "galleryDocs (sample_store 5) (''u1'', ''g1'') = Some ?d"
    by (simp add: sample_store_def)
  have t_ok: "upscale_try env_ok ?st1 (uid (sample_user 5)) sample_image = Inr (?st2, ?upd)"
    using up_ok
    by (simp add: upscale_try_def id conv bind_exn_def updateGalleryImage_def
        apply_update_upscale Let_def gd env_ok_def with_id_def sample_image_def)
  have t_bad: "upscale_try env_fail ?st1 (uid (sample_user 5)) sample_image
      = Inl (Error ''Failed to upscale image. network down'')"
    using up_bad by (simp add: upscale_try_def bind_exn_def)
  have e1: "debit_write env_ok = None" "debit_time env_ok = 100"
    "debit_write env_fail = None" "debit_time env_fail = 100" "refund_write env_fail = None"
    by (simp_all add: env_ok_def env_fail_def)
  have g: "galleryDocs ?st2 (''u1'', ''g1'')
     = Some \<lparr> doc_url = ''https://blobs.example/new'', doc_prompt = ''a cat'',
              doc_isUpscaled = True, doc_createdAt = 5 \<rparr>"
    by simp
  show ?thesis
    using upscale_frame[OF cu d[OF e1(1,2)], of ?st2 ?upd]
      upscale_frame[OF cu d[OF e1(3,4)], of _ _ "Error ''Failed to upscale image. network down''"]
      t_ok t_bad e1(5) g
    by (auto split: prod.splits)
qed

end
